theory Spec2Isabelle
  imports Main "HOL-Library.Word"
begin

section \<open>Python values, strings and dictionaries\<close>

text \<open>
  The query builder is Python. The values that reach a column are \<open>None\<close>, \<open>bool\<close>,
  \<open>int\<close>, \<open>float\<close>, \<open>str\<close>, \<open>decimal.Decimal\<close>, \<open>datetime.date\<close>,
  \<open>datetime.datetime\<close> and the repository's \<open>RandExpr\<close>. Python's \<open>int\<close> is unbounded
  (\<open>int\<close>); a \<open>float\<close> is carried as its 64 bits; a \<open>Decimal\<close> as sign, coefficient
  and exponent (a finite decimal); a \<open>date\<close> as year, month, day; a \<open>datetime\<close> as date,
  time of day in microseconds and an optional UTC offset. Only the truth value of an
  object and \<open>==\<close> look into these payloads.
  A \<open>str\<close> is a list of code points below 256.
\<close>

datatype pytype =
  Ty_NoneType | Ty_bool | Ty_int | Ty_float | Ty_str | Ty_Decimal | Ty_date | Ty_datetime
  | Ty_RandExpr

datatype pyval =
  PNone
  | PBool bool
  | PInt int
  | PFloat "64 word"
  | PStr string
  | PDecimal bool nat int
  | PDate nat nat nat
  | PDatetime nat nat nat nat "int option"
  | PRandExpr string

text \<open>\<open>type(value)\<close>: the exact class, so \<open>type(True)\<close> is \<open>bool\<close>, not \<open>int\<close>.\<close>

fun type_of :: "pyval \<Rightarrow> pytype" where
  "type_of PNone = Ty_NoneType"
| "type_of (PBool b) = Ty_bool"
| "type_of (PInt i) = Ty_int"
| "type_of (PFloat w) = Ty_float"
| "type_of (PStr s) = Ty_str"
| "type_of (PDecimal sg co ex) = Ty_Decimal"
| "type_of (PDate y m d) = Ty_date"
| "type_of (PDatetime y m d us tz) = Ty_datetime"
| "type_of (PRandExpr s) = Ty_RandExpr"

text \<open>
  A \<open>float\<close> is an IEEE 754 double: without its sign bit, a pattern above that of
  infinity is a NaN and the pattern 0 is a zero. \<open>a == b\<close> on floats is false when one
  is a NaN (also for one and the same object), true for the two zeros, and otherwise
  equality of the patterns.
\<close>

definition float_is_nan :: "64 word \<Rightarrow> bool" where
  "float_is_nan w \<longleftrightarrow> unat w mod 2 ^ 63 > 0x7FF0000000000000"

definition float_is_zero :: "64 word \<Rightarrow> bool" where
  "float_is_zero w \<longleftrightarrow> unat w mod 2 ^ 63 = 0"

definition float_eq :: "64 word \<Rightarrow> 64 word \<Rightarrow> bool" where
  "float_eq a b \<longleftrightarrow>
     \<not> float_is_nan a \<and> \<not> float_is_nan b \<and> (a = b \<or> (float_is_zero a \<and> float_is_zero b))"

text \<open>
  \<open>a == b\<close> on (finite) decimals compares the numbers: \<open>Decimal("1.0") == Decimal("1.00")\<close>,
  and the two zeros are equal.
\<close>

definition decimal_eq :: "bool \<Rightarrow> nat \<Rightarrow> int \<Rightarrow> bool \<Rightarrow> nat \<Rightarrow> int \<Rightarrow> bool" where
  "decimal_eq s1 c1 e1 s2 c2 e2 \<longleftrightarrow>
     (if c1 = 0 \<and> c2 = 0 then True
      else s1 = s2 \<and> c1 * 10 ^ nat (e1 - min e1 e2) = c2 * 10 ^ nat (e2 - min e1 e2))"

text \<open>A value that is a NaN: in this model, a \<open>float\<close> NaN.\<close>

fun is_nan :: "pyval \<Rightarrow> bool" where
  "is_nan (PFloat w) = float_is_nan w"
| "is_nan v = False"

text \<open>
  Python's \<open>==\<close>: a \<open>bool\<close> is the integer 0 or 1, so \<open>1 == True\<close>; floats and decimals
  as above; dates by their fields; datetimes of one offset by their fields, a naive and
  an aware one are unequal; \<open>RandExpr\<close> is a dataclass and compares its \<open>value\<close>.
  The other comparisons (an \<open>int\<close> with a \<open>float\<close>, datetimes of different offsets,
  objects of different classes) are not modelled (\<open>None\<close>).
\<close>

fun py_eq :: "pyval \<Rightarrow> pyval \<Rightarrow> bool option" where
  "py_eq PNone PNone = Some True"
| "py_eq (PBool a) (PBool b) = Some (a = b)"
| "py_eq (PBool a) (PInt j) = Some ((if a then 1 else 0) = j)"
| "py_eq (PInt i) (PBool b) = Some (i = (if b then 1 else 0))"
| "py_eq (PInt i) (PInt j) = Some (i = j)"
| "py_eq (PStr s) (PStr t) = Some (s = t)"
| "py_eq (PFloat a) (PFloat b) = Some (float_eq a b)"
| "py_eq (PDecimal s1 c1 e1) (PDecimal s2 c2 e2) = Some (decimal_eq s1 c1 e1 s2 c2 e2)"
| "py_eq (PDate y1 m1 d1) (PDate y2 m2 d2) = Some (y1 = y2 \<and> m1 = m2 \<and> d1 = d2)"
| "py_eq (PDatetime y1 m1 d1 us1 tz1) (PDatetime y2 m2 d2 us2 tz2) =
     (if tz1 = tz2 then Some (y1 = y2 \<and> m1 = m2 \<and> d1 = d2 \<and> us1 = us2)
      else if tz1 = None \<or> tz2 = None then Some False
      else None)"
| "py_eq (PRandExpr a) (PRandExpr b) = Some (a = b)"
| "py_eq x y = None"

text \<open>
  Truth value of an object (\<open>if x:\<close>): \<open>None\<close>, \<open>False\<close>, zero and the empty string
  are false; a \<open>float\<close> is false when it is \<open>0.0\<close> or \<open>-0.0\<close>; dates and \<open>RandExpr\<close>
  objects are always true.
\<close>

fun py_truthy :: "pyval \<Rightarrow> bool" where
  "py_truthy PNone = False"
| "py_truthy (PBool b) = b"
| "py_truthy (PInt i) = (i \<noteq> 0)"
| "py_truthy (PFloat w) = (w \<noteq> 0 \<and> w \<noteq> 0x8000000000000000)"
| "py_truthy (PStr s) = (s \<noteq> [])"
| "py_truthy (PDecimal sg co ex) = (co \<noteq> 0)"
| "py_truthy (PDate y m d) = True"
| "py_truthy (PDatetime y m d us tz) = True"
| "py_truthy (PRandExpr s) = True"

text \<open>\<open>isinstance(x, int)\<close> with the integer the object is: \<open>bool\<close> is a subclass of \<open>int\<close>.\<close>

fun int_value :: "pyval \<Rightarrow> int option" where
  "int_value (PBool b) = Some (if b then 1 else 0)"
| "int_value (PInt i) = Some i"
| "int_value v = None"

text \<open>
  Exceptions, one constructor for each \<open>raise\<close> of the source and three for what the
  interpreter raises by itself. \<open>class_of_error\<close> gives the Python class.
\<close>

datatype py_error =
  InvalidColumnName
  | NotNullViolation
  | OutOfRange
  | UnknownJoinTables
  | UnknownOrderColumn
  | InvalidLimit
  | InvalidOffset
  | SingleTableInsert
  | ColumnNotFound
  | CouldNotConvert
  | InvalidFormat
  | InvalidValueForType
  | IncompatibleInsertedTable
  | PyValueError
  | PyTypeError
  | PyAttributeError

datatype exception_class = ValueError | TypeError | AttributeError

fun class_of_error :: "py_error \<Rightarrow> exception_class" where
  "class_of_error InvalidColumnName = ValueError"
| "class_of_error NotNullViolation = ValueError"
| "class_of_error OutOfRange = ValueError"
| "class_of_error UnknownJoinTables = ValueError"
| "class_of_error UnknownOrderColumn = ValueError"
| "class_of_error InvalidLimit = ValueError"
| "class_of_error InvalidOffset = ValueError"
| "class_of_error SingleTableInsert = ValueError"
| "class_of_error ColumnNotFound = ValueError"
| "class_of_error CouldNotConvert = TypeError"
| "class_of_error InvalidFormat = TypeError"
| "class_of_error InvalidValueForType = TypeError"
| "class_of_error IncompatibleInsertedTable = TypeError"
| "class_of_error PyValueError = ValueError"
| "class_of_error PyTypeError = TypeError"
| "class_of_error PyAttributeError = AttributeError"

text \<open>The characters the renderers write.\<close>

definition nl :: string where
  "nl = [CHR 0x0A]"

definition tab :: string where
  "tab = [CHR 0x09]"

definition dq :: string where
  "dq = [CHR 0x22]"

text \<open>\<open>sep.join(xs)\<close>.\<close>

fun py_join :: "string \<Rightarrow> string list \<Rightarrow> string" where
  "py_join sep [] = []"
| "py_join sep [x] = x"
| "py_join sep (x # y # ys) = x @ sep @ py_join sep (y # ys)"

text \<open>\<open>str.lower()\<close> on code points below 256: A-Z and the Latin-1 capitals.\<close>

definition lower_char :: "char \<Rightarrow> char" where
  "lower_char c =
     (let n = of_char c :: nat in
      if (65 \<le> n \<and> n \<le> 90) \<or> (192 \<le> n \<and> n \<le> 222 \<and> n \<noteq> 215)
      then char_of (n + 32) else c)"

definition py_lower :: "string \<Rightarrow> string" where
  "py_lower s = map lower_char s"

text \<open>\<open>str.strip()\<close>: whitespace is removed at both ends.\<close>

definition is_space :: "char \<Rightarrow> bool" where
  "is_space c =
     (let n = of_char c :: nat in
      (9 \<le> n \<and> n \<le> 13) \<or> (28 \<le> n \<and> n \<le> 32) \<or> n = 133 \<or> n = 160)"

definition py_strip :: "string \<Rightarrow> string" where
  "py_strip s = rev (dropWhile is_space (rev (dropWhile is_space s)))"

text \<open>\<open>str(n)\<close> for a natural number, in decimal.\<close>

fun str_nat :: "nat \<Rightarrow> string" where
  "str_nat n =
     (if n < 10 then [''0123456789'' ! n]
      else str_nat (n div 10) @ [''0123456789'' ! (n mod 10)])"

declare str_nat.simps [simp del]

text \<open>The number a decimal string denotes: the inverse of \<open>str_nat\<close>.\<close>

definition nat_of_str :: "string \<Rightarrow> nat" where
  "nat_of_str s = foldl (\<lambda>a c. 10 * a + (of_char c - 48)) 0 s"

text \<open>\<open>str(i)\<close> for an \<open>int\<close>.\<close>

definition str_int :: "int \<Rightarrow> string" where
  "str_int i = (if i < 0 then ''-'' @ str_nat (nat (- i)) else str_nat (nat i))"

text \<open>
  A \<open>dict\<close> with \<open>str\<close> keys: a map. \<open>d[k] = v\<close> is \<open>d(k \<mapsto> v)\<close> and
  \<open>d.update(other)\<close> is \<open>d ++ other\<close>; the order in which a \<open>dict\<close> lists its keys
  is not modelled (the statement is sent with named parameters).
\<close>

type_synonym dict = "string \<rightharpoonup> pyval"

section \<open>What the source asks of the interpreter\<close>

text \<open>
  The conversions call the classes of \<open>_TYPES\<close> as functions (\<open>int(value)\<close>,
  \<open>float(value)\<close>, \<open>Decimal(value)\<close>, ...), iterate over the set \<open>_TYPES\<close>, parse dates
  and compare numbers. These are the interpreter's, not the repository's, and they are
  parameters of the model:
  \<^item> \<open>construct T v\<close> is the result of the call \<open>T(v)\<close>, \<open>None\<close> when it raises;
  \<^item> \<open>iterate S\<close> is the order in which a \<open>for\<close> loop visits the set \<open>S\<close>;
  \<^item> \<open>date_fromisoformat s\<close>, \<open>datetime_fromisoformat s\<close> and \<open>datetime_strptime s fmt\<close>
    parse the string \<open>s\<close>, \<open>None\<close> when they raise \<open>ValueError\<close>;
  \<^item> \<open>number_le a b\<close> is \<open>a <= b\<close> when one of the two is a \<open>float\<close> or a \<open>Decimal\<close>.
\<close>

record runtime =
  construct :: "pytype \<Rightarrow> pyval \<Rightarrow> pyval option"
  iterate :: "pytype set \<Rightarrow> pytype list"
  date_fromisoformat :: "string \<Rightarrow> pyval option"
  datetime_fromisoformat :: "string \<Rightarrow> pyval option"
  datetime_strptime :: "string \<Rightarrow> string \<Rightarrow> pyval option"
  number_le :: "pyval \<Rightarrow> pyval \<Rightarrow> bool"

text \<open>
  What Python guarantees of them: a class called as a function returns an object of
  that class, a loop over a set visits its members, and the parsers return a \<open>date\<close>,
  respectively a \<open>datetime\<close>.
\<close>

definition runtime_ok :: "runtime \<Rightarrow> bool" where
  "runtime_ok rt \<longleftrightarrow>
     (\<forall>T v r. construct rt T v = Some r \<longrightarrow> type_of r = T)
     \<and> (\<forall>S. set (iterate rt S) = S)
     \<and> (\<forall>s r. date_fromisoformat rt s = Some r \<longrightarrow> type_of r = Ty_date)
     \<and> (\<forall>s r. datetime_fromisoformat rt s = Some r \<longrightarrow> type_of r = Ty_datetime)
     \<and> (\<forall>s f r. datetime_strptime rt s f = Some r \<longrightarrow> type_of r = Ty_datetime)"

text \<open>
  \<open>a <= b\<close>: exact on \<open>bool\<close> and \<open>int\<close>, the interpreter's on the other numbers, and a
  \<open>TypeError\<close> when an operand is not a number.
\<close>

definition is_number :: "pyval \<Rightarrow> bool" where
  "is_number v \<longleftrightarrow> type_of v \<in> {Ty_bool, Ty_int, Ty_float, Ty_Decimal}"

definition py_le :: "runtime \<Rightarrow> pyval \<Rightarrow> pyval \<Rightarrow> py_error + bool" where
  "py_le rt a b =
     (case (int_value a, int_value b) of
        (Some i, Some j) \<Rightarrow> Inr (i \<le> j)
      | _ \<Rightarrow> if is_number a \<and> is_number b then Inr (number_le rt a b) else Inl PyTypeError)"

text \<open>
  A runtime for the examples: \<open>int()\<close> and \<open>bool()\<close> of \<open>None\<close>, \<open>bool\<close> and \<open>int\<close>
  arguments as Python computes them (\<open>int(None)\<close> raises), a set visited in the order
  of \<open>all_pytypes\<close>; every other call and every parse is taken to raise.
\<close>

definition all_pytypes :: "pytype list" where
  "all_pytypes =
     [Ty_NoneType, Ty_bool, Ty_int, Ty_float, Ty_str, Ty_Decimal, Ty_date, Ty_datetime,
      Ty_RandExpr]"

fun sample_construct :: "pytype \<Rightarrow> pyval \<Rightarrow> pyval option" where
  "sample_construct Ty_int (PBool b) = Some (PInt (if b then 1 else 0))"
| "sample_construct Ty_int (PInt i) = Some (PInt i)"
| "sample_construct Ty_bool PNone = Some (PBool False)"
| "sample_construct Ty_bool (PBool b) = Some (PBool b)"
| "sample_construct Ty_bool (PInt i) = Some (PBool (i \<noteq> 0))"
| "sample_construct T v = None"

definition sample_runtime :: runtime where
  "sample_runtime =
     \<lparr> construct = sample_construct,
       iterate = (\<lambda>S. filter (\<lambda>t. t \<in> S) all_pytypes),
       date_fromisoformat = (\<lambda>s. None),
       datetime_fromisoformat = (\<lambda>s. None),
       datetime_strptime = (\<lambda>s f. None),
       number_le = (\<lambda>a b. False) \<rparr>"

section \<open>Column types (models/types)\<close>

text \<open>
  The concrete column classes. \<open>Numeric[precision, scale]\<close> and \<open>VarChar[length]\<close> carry
  their parameters; \<open>Numeric\<close> and \<open>VarChar\<close> without parameters carry none.
\<close>

datatype col_type =
  Boolean
  | Integer
  | SmallInt
  | Serial
  | SmallSerial
  | Numeric "(nat \<times> nat) option"
  | Date
  | TimeStampTZ
  | VarChar "nat option"

text \<open>
  The class attribute \<open>_TYPES\<close> as the method resolution order finds it: \<open>Serial\<close> and
  \<open>SmallSerial\<close> take it from \<open>Integer\<close> and \<open>SmallInt\<close>.
\<close>

fun TYPES :: "col_type \<Rightarrow> pytype set" where
  "TYPES Boolean = {Ty_bool, Ty_int}"
| "TYPES Integer = {Ty_int}"
| "TYPES SmallInt = {Ty_int}"
| "TYPES Serial = {Ty_int}"
| "TYPES SmallSerial = {Ty_int}"
| "TYPES (Numeric ps) = {Ty_int, Ty_float, Ty_Decimal}"
| "TYPES Date = {Ty_date}"
| "TYPES TimeStampTZ = {Ty_datetime}"
| "TYPES (VarChar n) = {Ty_str}"

text \<open>
  \<open>_MIN\<close> and \<open>_MAX\<close>: \<open>_Serial\<close> comes first in the bases of the serial types and sets
  \<open>_MIN = 0\<close>; a \<open>Numeric\<close> without parameters has \<open>None\<close> for both.
\<close>

fun MIN_value :: "col_type \<Rightarrow> pyval" where
  "MIN_value Integer = PInt (0 - 2 ^ 31)"
| "MIN_value SmallInt = PInt (0 - 2 ^ 15)"
| "MIN_value Serial = PInt 0"
| "MIN_value SmallSerial = PInt 0"
| "MIN_value (Numeric (Some (precision, scale))) = PInt (- (10 ^ precision))"
| "MIN_value t = PNone"

fun MAX_value :: "col_type \<Rightarrow> pyval" where
  "MAX_value Integer = PInt (2 ^ 31 - 1)"
| "MAX_value SmallInt = PInt (2 ^ 15 - 1)"
| "MAX_value Serial = PInt (2 ^ 31 - 1)"
| "MAX_value SmallSerial = PInt (2 ^ 15 - 1)"
| "MAX_value (Numeric (Some (precision, scale))) = PInt (10 ^ precision)"
| "MAX_value t = PNone"

text \<open>The classes below \<open>_Numeric\<close>, whose \<open>validate\<close> checks the range.\<close>

fun is_numeric :: "col_type \<Rightarrow> bool" where
  "is_numeric Integer = True"
| "is_numeric SmallInt = True"
| "is_numeric Serial = True"
| "is_numeric SmallSerial = True"
| "is_numeric (Numeric ps) = True"
| "is_numeric t = False"

subsection \<open>convert\<close>

text \<open>
  The loop of \<open>Column.convert\<close>: \<open>return _type(value)\<close> for the first class of \<open>_TYPES\<close>
  whose call does not raise, and \<open>TypeError\<close> after the last.
\<close>

fun try_types :: "(pytype \<Rightarrow> pyval \<Rightarrow> pyval option) \<Rightarrow> pytype list \<Rightarrow> pyval \<Rightarrow> py_error + pyval"
  where
  "try_types call [] v = Inl CouldNotConvert"
| "try_types call (T # Ts) v =
     (case call T v of Some r \<Rightarrow> Inr r | None \<Rightarrow> try_types call Ts v)"

definition Column_convert :: "runtime \<Rightarrow> pytype set \<Rightarrow> pyval \<Rightarrow> py_error + pyval" where
  "Column_convert rt types v =
     (if type_of v \<in> insert Ty_RandExpr types then Inr v
      else try_types (construct rt) (iterate rt types) v)"

text \<open>
  \<open>Boolean.convert\<close>: a \<open>str\<close> is true unless its lower case is one of the four strings
  of the tuple; anything else goes to \<open>Column.convert\<close>.
\<close>

definition Boolean_convert :: "runtime \<Rightarrow> pyval \<Rightarrow> py_error + pyval" where
  "Boolean_convert rt v =
     (case v of
        PStr s \<Rightarrow> Inr (PBool (py_lower s \<notin> set [''0'', ''f'', ''false'', ''FALSE'']))
      | _ \<Rightarrow> Column_convert rt (TYPES Boolean) v)"

text \<open>
  \<open>Date.convert\<close>: when \<open>Column.convert\<close> raises, \<open>date.fromisoformat(value)\<close>, which
  raises \<open>TypeError\<close> for an argument that is not a \<open>str\<close>; its \<open>ValueError\<close> becomes
  \<open>TypeError("Invalid format ...")\<close>.
\<close>

definition Date_convert :: "runtime \<Rightarrow> pyval \<Rightarrow> py_error + pyval" where
  "Date_convert rt v =
     (case Column_convert rt (TYPES Date) v of
        Inr r \<Rightarrow> Inr r
      | Inl e \<Rightarrow>
          (case v of
             PStr s \<Rightarrow>
               (case date_fromisoformat rt s of Some d \<Rightarrow> Inr d | None \<Rightarrow> Inl InvalidFormat)
           | _ \<Rightarrow> Inl PyTypeError))"

text \<open>
  \<open>TimeStampTZ.convert\<close>: three converters in turn, \<open>datetime.fromisoformat(value)\<close> and
  \<open>datetime.strptime(value + "00", ...)\<close> with and without fractional seconds.
\<close>

definition TimeStampTZ_convert :: "runtime \<Rightarrow> pyval \<Rightarrow> py_error + pyval" where
  "TimeStampTZ_convert rt v =
     (case Column_convert rt (TYPES TimeStampTZ) v of
        Inr r \<Rightarrow> Inr r
      | Inl e \<Rightarrow>
          (case v of
             PStr s \<Rightarrow>
               (case datetime_fromisoformat rt s of
                  Some d \<Rightarrow> Inr d
                | None \<Rightarrow>
                    (case datetime_strptime rt (s @ ''00'') ''%Y-%m-%d %H:%M:%S.%f%z'' of
                       Some d \<Rightarrow> Inr d
                     | None \<Rightarrow>
                         (case datetime_strptime rt (s @ ''00'') ''%Y-%m-%d %H:%M:%S%z'' of
                            Some d \<Rightarrow> Inr d
                          | None \<Rightarrow> Inl InvalidFormat)))
           | _ \<Rightarrow> Inl PyTypeError))"

text \<open>\<open>cls.convert(value)\<close> for each concrete class.\<close>

fun convert :: "runtime \<Rightarrow> col_type \<Rightarrow> pyval \<Rightarrow> py_error + pyval" where
  "convert rt Boolean v = Boolean_convert rt v"
| "convert rt Date v = Date_convert rt v"
| "convert rt TimeStampTZ v = TimeStampTZ_convert rt v"
| "convert rt t v = Column_convert rt (TYPES t) v"

section \<open>Columns and tables (models/core.py)\<close>

text \<open>
  A \<open>Column\<close> object has the slots \<open>name\<close>, \<open>primary_key\<close>, \<open>unique\<close>, \<open>not_null\<close>,
  \<open>_default\<close>, \<open>foreign_key\<close> and \<open>table\<close>. \<open>column_decl\<close> is the object as a table
  class holds it, \<open>column\<close> adds the slot \<open>table\<close>, which \<open>__init__\<close> leaves unset and
  \<open>__get__\<close> sets to the owning class on every access through the class.
  \<open>ctype\<close> is the column's class, \<open>pyclass\<close> the identity of that class object
  (\<open>VarChar[n]\<close> and \<open>Numeric[p, s]\<close> build a new class each time they are evaluated).
  \<open>foreign_key\<close>, read only by \<open>random()\<close>, is left out, and a default is a value,
  not a factory.
\<close>

record column_decl =
  name :: string
  primary_key :: bool
  unique :: bool
  not_null :: bool
  default_value :: pyval
  ctype :: col_type
  pyclass :: nat

text \<open>
  A table class (an instance of \<open>MetaModel\<close>): \<open>cls_name\<close> stands for the identity of
  the class object, \<open>schema_name\<close> and \<open>table_name\<close> are \<open>__schema__\<close> and \<open>__table__\<close>,
  and \<open>attrs\<close> are its \<open>Column\<close> attributes in the order of \<open>dir(cls)\<close>. Every view
  of the repository declares a column under its own name, and so does the model: the
  attribute \<open>name c\<close> of the class is the column \<open>c\<close>.
\<close>

record model =
  cls_name :: string
  schema_name :: string
  table_name :: string
  attrs :: "column_decl list"

record column = column_decl +
  table :: "model option"

text \<open>
  \<open>re.match(r"[A-Za-z0-9_]", name)\<close>: the pattern is one character class, and
  \<open>match\<close> looks for it at the start of the string.
\<close>

definition in_class :: "char \<Rightarrow> bool" where
  "in_class c =
     (let n = of_char c :: nat in
      (65 \<le> n \<and> n \<le> 90) \<or> (97 \<le> n \<and> n \<le> 122) \<or> (48 \<le> n \<and> n \<le> 57) \<or> n = 95)"

fun re_match :: "string \<Rightarrow> bool" where
  "re_match [] = False"
| "re_match (c # cs) = in_class c"

text \<open>\<open>Column.__init__\<close>, called on the class \<open>ty\<close> (class object \<open>cls\<close>).\<close>

definition Column_init ::
  "col_type \<Rightarrow> nat \<Rightarrow> string \<Rightarrow> bool \<Rightarrow> bool \<Rightarrow> bool \<Rightarrow> pyval \<Rightarrow> py_error + column" where
  "Column_init ty cls nm pk uq nn dflt =
     (if \<not> re_match nm then Inl InvalidColumnName
      else Inr \<lparr> name = nm, primary_key = pk, unique = (uq \<or> pk), not_null = (nn \<or> pk),
                 default_value = dflt, ctype = ty, pyclass = cls, table = None \<rparr>)"

text \<open>\<open>Column.__get__(None, owner)\<close>: \<open>self.table = owner\<close>.\<close>

definition Column_get :: "model \<Rightarrow> column_decl \<Rightarrow> column" where
  "Column_get owner d =
     \<lparr> name = name d, primary_key = primary_key d, unique = unique d, not_null = not_null d,
       default_value = default_value d, ctype = ctype d, pyclass = pyclass d,
       table = Some owner \<rparr>"

text \<open>\<open>MetaModel.columns\<close> and \<open>MetaModel.primary_keys\<close>.\<close>

definition MetaModel_columns :: "model \<Rightarrow> column list" where
  "MetaModel_columns cls = map (Column_get cls) (attrs cls)"

definition MetaModel_primary_keys :: "model \<Rightarrow> column list" where
  "MetaModel_primary_keys cls = filter primary_key (MetaModel_columns cls)"

text \<open>\<open>MetaModel.__str__\<close> and \<open>Column.__str__\<close>; the latter reads \<open>self.table\<close>.\<close>

definition MetaModel_str :: "model \<Rightarrow> string" where
  "MetaModel_str cls = dq @ schema_name cls @ dq @ ''.'' @ dq @ table_name cls @ dq"

definition column_text :: "model \<Rightarrow> 'a column_decl_scheme \<Rightarrow> string" where
  "column_text t c = dq @ table_name t @ dq @ ''.'' @ dq @ name c @ dq"

definition Column_str :: "column \<Rightarrow> py_error + string" where
  "Column_str c =
     (case table c of
        None \<Rightarrow> Inl PyAttributeError
      | Some t \<Rightarrow> Inr (column_text t c))"

subsection \<open>validate\<close>

text \<open>
  \<open>Column.validate\<close>: the NOT NULL check, then \<open>convert\<close>, whose \<open>TypeError\<close> or
  \<open>ValueError\<close> becomes \<open>TypeError("Invalid value for type ...")\<close>.
\<close>

definition Column_validate :: "runtime \<Rightarrow> column \<Rightarrow> pyval \<Rightarrow> py_error + unit" where
  "Column_validate rt c v =
     (if not_null c \<and> v = PNone then Inl NotNullViolation
      else case convert rt (ctype c) v of
             Inl e \<Rightarrow> Inl InvalidValueForType
           | Inr r \<Rightarrow> Inr ())"

text \<open>
  \<open>_Numeric.validate\<close>: \<open>super().validate(value)\<close>, then the chained comparison
  \<open>self._MIN <= self.convert(value) <= self._MAX\<close>, which stops at the first false.
\<close>

definition Numeric_validate :: "runtime \<Rightarrow> column \<Rightarrow> pyval \<Rightarrow> py_error + unit" where
  "Numeric_validate rt c v =
     (case Column_validate rt c v of
        Inl e \<Rightarrow> Inl e
      | Inr u \<Rightarrow>
          (case convert rt (ctype c) v of
             Inl e \<Rightarrow> Inl e
           | Inr x \<Rightarrow>
               (case py_le rt (MIN_value (ctype c)) x of
                  Inl e \<Rightarrow> Inl e
                | Inr lower \<Rightarrow>
                    if \<not> lower then Inl OutOfRange
                    else (case py_le rt x (MAX_value (ctype c)) of
                            Inl e \<Rightarrow> Inl e
                          | Inr upper \<Rightarrow> if upper then Inr () else Inl OutOfRange))))"

definition validate :: "runtime \<Rightarrow> column \<Rightarrow> pyval \<Rightarrow> py_error + unit" where
  "validate rt c v =
     (if is_numeric (ctype c) then Numeric_validate rt c v else Column_validate rt c v)"

subsection \<open>Comparison operators\<close>

text \<open>
  An operand is a column or a literal. \<open>operator_factory(operator, name)\<close> returns
  \<open>comparator\<close>: against a column it writes both columns and binds nothing; against a
  literal it validates the literal, then binds it under \<open><table>_<column>_<name>\<close>.
\<close>

type_synonym expression = "string \<times> dict option"

definition comparator ::
  "string \<Rightarrow> string \<Rightarrow> runtime \<Rightarrow> column \<Rightarrow> column + pyval \<Rightarrow> py_error + expression" where
  "comparator operator opname rt self other =
     (case other of
        Inl col \<Rightarrow>
          (case Column_str self of
             Inl e \<Rightarrow> Inl e
           | Inr s1 \<Rightarrow>
               (case Column_str col of
                  Inl e \<Rightarrow> Inl e
                | Inr s2 \<Rightarrow> Inr (s1 @ '' '' @ operator @ '' '' @ s2, None)))
      | Inr lit \<Rightarrow>
          (case validate rt self lit of
             Inl e \<Rightarrow> Inl e
           | Inr u \<Rightarrow>
               (case table self of
                  None \<Rightarrow> Inl PyAttributeError
                | Some t \<Rightarrow>
                    (let pname = table_name t @ ''_'' @ name self @ ''_'' @ opname in
                     case Column_str self of
                       Inl e \<Rightarrow> Inl e
                     | Inr s1 \<Rightarrow>
                         Inr (s1 @ '' '' @ operator @ '' %('' @ pname @ '')s'',
                              Some [pname \<mapsto> lit])))))"

text \<open>\<open>Column.__eq__ = operator_factory("=", "eq")\<close>.\<close>

definition Column_eq :: "runtime \<Rightarrow> column \<Rightarrow> column + pyval \<Rightarrow> py_error + expression" where
  "Column_eq = comparator ''='' ''eq''"

text \<open>
  The expression \<open>first == second\<close> on two columns. Python calls the method of the
  right operand first when its class is a proper subclass of the class of the left one,
  and a \<open>comparator\<close> never returns \<open>NotImplemented\<close>: then the result is
  \<open>second.__eq__(first)\<close>, which writes \<open><second> = <first>\<close>. Among the column classes,
  \<open>Serial\<close> is a subclass of \<open>Integer\<close>, \<open>SmallSerial\<close> of \<open>SmallInt\<close>, every
  \<open>Numeric[p, s]\<close> of \<open>Numeric\<close> and every \<open>VarChar[n]\<close> of \<open>VarChar\<close>;
  \<open>concrete_base\<close> is that one concrete class above a class, when there is one.
\<close>

fun concrete_base :: "col_type \<Rightarrow> col_type option" where
  "concrete_base Serial = Some Integer"
| "concrete_base SmallSerial = Some SmallInt"
| "concrete_base (Numeric (Some ps)) = Some (Numeric None)"
| "concrete_base (VarChar (Some n)) = Some (VarChar None)"
| "concrete_base t = None"

definition proper_subclass :: "col_type \<Rightarrow> col_type \<Rightarrow> bool" where
  "proper_subclass sub super \<longleftrightarrow> concrete_base sub = Some super"

definition Column_equals :: "runtime \<Rightarrow> column \<Rightarrow> column \<Rightarrow> py_error + expression" where
  "Column_equals rt first second =
     (if proper_subclass (ctype second) (ctype first) then Column_eq rt second (Inl first)
      else Column_eq rt first (Inl second))"

section \<open>Joins (models/expressions/join.py)\<close>

text \<open>
  \<open>JoinFactory(keyword)(first, second)\<close> returns the closure \<open>join_clause\<close>, which
  a query calls with its list of tables. \<open>first.table in joined\<close> compares class
  objects. \<open>comparator, *_ = first == second\<close> takes the text of \<open>first == second\<close>.
\<close>

definition join_clause ::
  "runtime \<Rightarrow> string \<Rightarrow> column \<Rightarrow> column \<Rightarrow> model list \<Rightarrow> py_error + (string \<times> model)" where
  "join_clause rt keyword first second joined =
     (case table first of
        None \<Rightarrow> Inl PyAttributeError
      | Some t1 \<Rightarrow>
          (case table second of
             None \<Rightarrow> Inl PyAttributeError
           | Some t2 \<Rightarrow>
               (case (if t1 \<in> set joined then Inr t2
                      else if t2 \<in> set joined then Inr t1
                      else Inl UnknownJoinTables) of
                  Inl e \<Rightarrow> Inl e
                | Inr tbl \<Rightarrow>
                    (case Column_equals rt first second of
                       Inl e \<Rightarrow> Inl e
                     | Inr (cmp, param) \<Rightarrow>
                         Inr (keyword @ '' '' @ MetaModel_str tbl @ nl @ tab @ ''ON '' @ cmp,
                              tbl)))))"

text \<open>A join closure with what it captured.\<close>

datatype join_func = JoinFunc string column column

fun call_join :: "runtime \<Rightarrow> join_func \<Rightarrow> model list \<Rightarrow> py_error + (string \<times> model)" where
  "call_join rt (JoinFunc keyword first second) joined =
     join_clause rt keyword first second joined"

definition join :: "column \<Rightarrow> column \<Rightarrow> join_func" where
  "join = JoinFunc ''JOIN''"

definition inner_join :: "column \<Rightarrow> column \<Rightarrow> join_func" where
  "inner_join = JoinFunc ''INNER JOIN''"

definition left_outer_join :: "column \<Rightarrow> column \<Rightarrow> join_func" where
  "left_outer_join = JoinFunc ''LEFT OUTER JOIN''"

definition right_outer_join :: "column \<Rightarrow> column \<Rightarrow> join_func" where
  "right_outer_join = JoinFunc ''RIGHT OUTER JOIN''"

definition full_outer_join :: "column \<Rightarrow> column \<Rightarrow> join_func" where
  "full_outer_join = JoinFunc ''FULL OUTER JOIN''"

section \<open>Logical combinators (models/expressions/logical.py)\<close>

text \<open>
  The loop of \<open>logical_expr\<close>: \<open>operands.append(expression)\<close> and
  \<open>parameters.update(param or {})\<close> for each expression in turn.
\<close>

fun logical_loop :: "expression list \<Rightarrow> string list \<times> dict \<Rightarrow> string list \<times> dict" where
  "logical_loop [] acc = acc"
| "logical_loop ((expression, param) # es) (operands, parameters) =
     logical_loop es
       (operands @ [expression],
        parameters ++ (case param of None \<Rightarrow> Map.empty | Some d \<Rightarrow> d))"

definition logical_expr :: "string \<Rightarrow> expression list \<Rightarrow> expression" where
  "logical_expr operator expressions =
     (case logical_loop expressions ([], Map.empty) of
        (operands, parameters) \<Rightarrow>
          (''('' @ py_join ('' '' @ operator @ '' '') operands @ '')'', Some parameters))"

text \<open>\<open>and_ = _logical_expr_factory("AND")\<close> and \<open>or_ = _logical_expr_factory("OR")\<close>.\<close>

definition and_expr :: "expression list \<Rightarrow> expression" where
  "and_expr = logical_expr ''AND''"

definition or_expr :: "expression list \<Rightarrow> expression" where
  "or_expr = logical_expr ''OR''"

text \<open>
  The merge the specification describes, name by name: the value of a name is the one
  the last input map holding that name gives it, and a name no input map holds is unbound.
\<close>

definition param_map :: "expression \<Rightarrow> dict" where
  "param_map e = (case snd e of None \<Rightarrow> Map.empty | Some d \<Rightarrow> d)"

definition merged :: "expression list \<Rightarrow> dict" where
  "merged es k =
     (case filter (\<lambda>e. param_map e k \<noteq> None) es of
        [] \<Rightarrow> None
      | x # xs \<Rightarrow> param_map (last (x # xs)) k)"

section \<open>Queries (models/core.py)\<close>

text \<open>
  \<open>Query._iter(value)\<close> on a list: the list itself when all its elements have the
  type of the first, and otherwise the one-element list \<open>[value]\<close>.
\<close>

datatype 'a itered = Same "'a list" | Wrapped "'a list"

definition py_iter :: "('a \<Rightarrow> 'b) \<Rightarrow> 'a list \<Rightarrow> 'a itered" where
  "py_iter ty xs =
     (case xs of
        [] \<Rightarrow> Same []
      | x # rest \<Rightarrow> if list_all (\<lambda>y. ty y = ty x) rest then Same xs else Wrapped xs)"

text \<open>
  The dataclasses. \<open>__post_init__\<close> passes \<open>tables\<close>, \<open>joins\<close> and \<open>filters\<close> through
  \<open>_iter\<close>, which returns them as they are (table classes are all of type
  \<open>MetaModel\<close>, joins are functions, filters are tuples), and then stores
  \<open>self._render()\<close>: a render that raises is a constructor that raises, and no
  statement exists to be sent. \<open>limit\<close> and \<open>offset\<close> hold any object, \<open>None\<close> by default.
\<close>

record query =
  parameters :: dict
  tables :: "model list"

record filter_query = query +
  joins :: "join_func list"
  filters :: "expression list"
  order_by :: "column option"
  ascending :: bool
  limit :: pyval
  offset :: pyval

record select_query = filter_query +
  columns :: "column list"

record update_query = filter_query +
  values_dict :: "(string \<times> pyval) list"

text \<open>
  A table instance (\<open>BaseModel\<close>): its class and the values \<open>Column.__set__\<close> stored.
  \<open>getattr(value, column.name)\<close> is \<open>Column.__get__\<close>: the stored value, or the default.
\<close>

record base_model =
  model_of :: model
  stored :: dict

definition getattr :: "base_model \<Rightarrow> column \<Rightarrow> pyval" where
  "getattr inst c = (case stored inst (name c) of Some v \<Rightarrow> v | None \<Rightarrow> default_value c)"

record values_query = query +
  values_list :: "base_model list"

record insert_query = values_query +
  upsert :: bool

text \<open>The property \<open>Query.table\<close>, and \<open>f"{self.table}"\<close>, which prints \<open>None\<close> as \<open>None\<close>.\<close>

definition Query_table :: "'a query_scheme \<Rightarrow> model option" where
  "Query_table q = (case tables q of [] \<Rightarrow> None | t # ts \<Rightarrow> Some t)"

definition format_table :: "model option \<Rightarrow> string" where
  "format_table t = (case t of None \<Rightarrow> ''None'' | Some cls \<Rightarrow> MetaModel_str cls)"

subsection \<open>_FilterQuery._render\<close>

text \<open>The loop over the joins: each join is called with the tables so far and adds one.\<close>

fun render_joins ::
  "runtime \<Rightarrow> join_func list \<Rightarrow> model list \<Rightarrow> string \<Rightarrow> py_error + (string \<times> model list)" where
  "render_joins rt [] ts q = Inr (q, ts)"
| "render_joins rt (j # js) ts q =
     (case call_join rt j ts of
        Inl e \<Rightarrow> Inl e
      | Inr (expression, t) \<Rightarrow> render_joins rt js (ts @ [t]) (q @ nl @ expression @ '' ''))"

text \<open>The WHERE clause and the parameters the filters bring.\<close>

definition render_where :: "expression list \<Rightarrow> string" where
  "render_where fs =
     (if fs = [] then []
      else nl @ ''WHERE'' @ nl @ tab @ py_join (nl @ tab @ ''AND'' @ nl @ tab) (map fst fs))"

fun update_parameters :: "expression list \<Rightarrow> dict \<Rightarrow> dict" where
  "update_parameters [] ps = ps"
| "update_parameters ((expression, parameter) # fs) ps =
     update_parameters fs (case parameter of None \<Rightarrow> ps | Some d \<Rightarrow> ps ++ d)"

text \<open>
  The ORDER BY clause. Python reads line 243 as
  \<open>query += ((f"\nORDER BY {self.order_by} " + "ASC") if self.ascending else ("DESC" + " "))\<close>:
  the conditional expression binds weaker than \<open>+\<close>.
\<close>

definition render_order_by :: "column option \<Rightarrow> bool \<Rightarrow> model list \<Rightarrow> py_error + string" where
  "render_order_by ob asc ts =
     (case ob of
        None \<Rightarrow> Inr []
      | Some c \<Rightarrow>
          (case table c of
             None \<Rightarrow> Inl PyAttributeError
           | Some t \<Rightarrow>
               if t \<notin> set ts then Inl UnknownOrderColumn
               else if asc then
                 (case Column_str c of
                    Inl e \<Rightarrow> Inl e
                  | Inr s \<Rightarrow> Inr (nl @ ''ORDER BY '' @ s @ '' '' @ ''ASC''))
               else Inr (''DESC'' @ '' '')))"

text \<open>
  The LIMIT and OFFSET clauses: \<open>if self.limit:\<close>, then
  \<open>not isinstance(self.limit, int) or self.limit < 0\<close>. \<open>format_int\<close> is \<open>f"{x}"\<close> for an
  instance of \<open>int\<close>.
\<close>

definition format_int :: "pyval \<Rightarrow> string" where
  "format_int v =
     (case v of
        PBool b \<Rightarrow> if b then ''True'' else ''False''
      | PInt i \<Rightarrow> str_int i
      | _ \<Rightarrow> [])"

definition render_bound :: "string \<Rightarrow> py_error \<Rightarrow> pyval \<Rightarrow> py_error + string" where
  "render_bound keyword err v =
     (if \<not> py_truthy v then Inr []
      else case int_value v of
             None \<Rightarrow> Inl err
           | Some i \<Rightarrow> if i < 0 then Inl err else Inr (nl @ keyword @ '' '' @ format_int v @ '' ''))"

text \<open>The whole method; it returns the text, and leaves the tables and parameters changed.\<close>

definition FilterQuery_render ::
  "runtime \<Rightarrow> 'a filter_query_scheme \<Rightarrow> py_error + (string \<times> model list \<times> dict)" where
  "FilterQuery_render rt q =
     (case render_joins rt (joins q) (tables q) [] of
        Inl e \<Rightarrow> Inl e
      | Inr (q1, ts) \<Rightarrow>
          (case render_order_by (order_by q) (ascending q) ts of
             Inl e \<Rightarrow> Inl e
           | Inr ob \<Rightarrow>
               (case render_bound ''LIMIT'' InvalidLimit (limit q) of
                  Inl e \<Rightarrow> Inl e
                | Inr lim \<Rightarrow>
                    (case render_bound ''OFFSET'' InvalidOffset (offset q) of
                       Inl e \<Rightarrow> Inl e
                     | Inr off \<Rightarrow>
                         Inr (py_strip (q1 @ render_where (filters q) @ ob @ lim @ off),
                              ts,
                              update_parameters (filters q) (parameters q))))))"

subsection \<open>SelectQuery and DeleteQuery\<close>

text \<open>\<open>map(str, columns)\<close>, which stops at the first column that has no table.\<close>

fun str_columns :: "column list \<Rightarrow> py_error + string list" where
  "str_columns [] = Inr []"
| "str_columns (c # cs) =
     (case Column_str c of
        Inl e \<Rightarrow> Inl e
      | Inr s \<Rightarrow> (case str_columns cs of Inl e \<Rightarrow> Inl e | Inr ss \<Rightarrow> Inr (s # ss)))"

text \<open>
  \<open>",\n\t".join(map(str, self.columns or self.table.columns))\<close>, after
  \<open>self.columns = self._iter(self.columns)\<close>. Columns of different classes come back
  from \<open>_iter\<close> as one element, the list, whose \<open>str\<close> is made of the \<open>repr\<close> of the column
  objects; \<open>obj_repr\<close> stands for that default \<open>repr\<close>, which shows an address.
\<close>

definition selected_columns :: "(column \<Rightarrow> string) \<Rightarrow> select_query \<Rightarrow> py_error + string" where
  "selected_columns obj_repr q =
     (case py_iter pyclass (columns q) of
        Wrapped cs \<Rightarrow> Inr (''['' @ py_join '', '' (map obj_repr cs) @ '']'')
      | Same cs \<Rightarrow>
          if cs \<noteq> [] then
            (case str_columns cs of
               Inl e \<Rightarrow> Inl e
             | Inr ss \<Rightarrow> Inr (py_join ('','' @ nl @ tab) ss))
          else
            (case Query_table q of
               None \<Rightarrow> Inl PyAttributeError
             | Some t \<Rightarrow>
                 (case str_columns (MetaModel_columns t) of
                    Inl e \<Rightarrow> Inl e
                  | Inr ss \<Rightarrow> Inr (py_join ('','' @ nl @ tab) ss))))"

definition SelectQuery_render ::
  "runtime \<Rightarrow> (column \<Rightarrow> string) \<Rightarrow> select_query \<Rightarrow> py_error + (string \<times> model list \<times> dict)"
  where
  "SelectQuery_render rt obj_repr q =
     (case selected_columns obj_repr q of
        Inl e \<Rightarrow> Inl e
      | Inr selected \<Rightarrow>
          if selected = [] then Inr (py_strip [], tables q, parameters q)
          else
            (case FilterQuery_render rt q of
               Inl e \<Rightarrow> Inl e
             | Inr (text, ts, ps) \<Rightarrow>
                 Inr (py_strip (''SELECT'' @ nl @ tab @ selected @ nl
                        @ ''FROM '' @ format_table (Query_table q) @ nl @ text),
                      ts, ps)))"

definition DeleteQuery_render ::
  "runtime \<Rightarrow> filter_query \<Rightarrow> py_error + (string \<times> model list \<times> dict)" where
  "DeleteQuery_render rt q =
     (case Query_table q of
        None \<Rightarrow> Inr ([], tables q, parameters q)
      | Some t \<Rightarrow>
          (case FilterQuery_render rt q of
             Inl e \<Rightarrow> Inl e
           | Inr (text, ts, ps) \<Rightarrow>
               Inr (''DELETE FROM '' @ MetaModel_str t @ nl @ text @ nl @ ''RETURNING *'',
                    ts, ps)))"

subsection \<open>UpdateQuery\<close>

text \<open>
  The loop over \<open>self.values.items()\<close>: find the column of that name among
  \<open>self.table.columns\<close>, validate, write \<open><column> = %(<table>_<column>)s,\<close> and bind.
  The state is the text, the parameters and the last \<open>updated_column\<close>.
\<close>

fun render_assignments ::
  "runtime \<Rightarrow> model option \<Rightarrow> (string \<times> pyval) list \<Rightarrow> string \<times> dict \<times> string
     \<Rightarrow> py_error + (string \<times> dict \<times> string)" where
  "render_assignments rt tbl [] st = Inr st"
| "render_assignments rt tbl ((updated_column, v) # items) (q, ps, last_column) =
     (case tbl of
        None \<Rightarrow> Inl PyAttributeError
      | Some t \<Rightarrow>
          (case find (\<lambda>c. name c = updated_column) (MetaModel_columns t) of
             None \<Rightarrow> Inl ColumnNotFound
           | Some c \<Rightarrow>
               (case validate rt c v of
                  Inl e \<Rightarrow> Inl e
                | Inr u \<Rightarrow>
                    (case table c of
                       None \<Rightarrow> Inl PyAttributeError
                     | Some ct \<Rightarrow>
                         (let pname = table_name ct @ ''_'' @ name c in
                          render_assignments rt tbl items
                            (q @ nl @ tab @ name c @ '' = %('' @ pname @ '')s,'',
                             ps(pname \<mapsto> v),
                             updated_column))))))"

definition UpdateQuery_render ::
  "runtime \<Rightarrow> update_query \<Rightarrow> py_error + (string \<times> model list \<times> dict)" where
  "UpdateQuery_render rt q =
     (if values_dict q = [] then Inr ([], tables q, parameters q)
      else
        (case render_assignments rt (Query_table q) (values_dict q)
                (''UPDATE '' @ format_table (Query_table q) @ nl @ ''SET'', parameters q, [])
         of
           Inl e \<Rightarrow> Inl e
         | Inr (q1, ps, updated_column) \<Rightarrow>
             (case FilterQuery_render rt (q\<lparr>parameters := ps\<rparr>) of
                Inl e \<Rightarrow> Inl e
              | Inr (text, ts, ps') \<Rightarrow>
                  Inr (butlast q1 @ nl @ text @ nl @ ''RETURNING '' @ updated_column,
                       ts, ps'))))"

subsection \<open>_ValuesQuery._render and InsertQuery\<close>

text \<open>
  The inner loop over the columns of one instance: the \<open>for ... else\<close> looks the
  column up in \<open>value.columns\<close>; a \<open>RandExpr\<close> is written as it is, and any other value
  is bound under \<open><table>_<column>_<number>\<close>. The call \<open>column.validate(value)\<close> is
  commented out in the source.
\<close>

fun render_cells ::
  "column list \<Rightarrow> nat \<Rightarrow> base_model \<Rightarrow> string \<times> dict \<Rightarrow> py_error + (string \<times> dict)" where
  "render_cells [] number v st = Inr st"
| "render_cells (c # cs) number v (q, ps) =
     (if \<not> list_ex (\<lambda>vc. name vc = name c) (MetaModel_columns (model_of v))
      then Inl ColumnNotFound
      else
        (case getattr v c of
           PRandExpr raw \<Rightarrow> render_cells cs number v (q @ raw @ '', '', ps)
         | x \<Rightarrow>
             (case table c of
                None \<Rightarrow> Inl PyAttributeError
              | Some t \<Rightarrow>
                  (let pname = table_name t @ ''_'' @ name c @ ''_'' @ str_nat number in
                   render_cells cs number v (q @ ''%('' @ pname @ '')s, '', ps(pname \<mapsto> x))))))"

text \<open>
  The outer loop, \<open>for number, value in enumerate(self.values)\<close>; \<open>query[:-2]\<close> takes
  the last separator away.
\<close>

fun render_rows ::
  "model \<Rightarrow> column list \<Rightarrow> nat \<Rightarrow> base_model list \<Rightarrow> string \<times> dict \<Rightarrow> py_error + (string \<times> dict)"
  where
  "render_rows inserted cols number [] st = Inr st"
| "render_rows inserted cols number (v # vs) (q, ps) =
     (if model_of v \<noteq> inserted then Inl IncompatibleInsertedTable
      else
        (case render_cells cols number v (q @ nl @ tab @ ''('', ps) of
           Inl e \<Rightarrow> Inl e
         | Inr (q', ps') \<Rightarrow>
             render_rows inserted cols (Suc number) vs (butlast (butlast q') @ ''),'', ps')))"

text \<open>
  \<open>inserted, *redundant = self.tables\<close> raises \<open>ValueError\<close> on an empty list.
  \<open>self.values\<close> went through \<open>_iter\<close>: instances of different classes come back as one
  element, the list, which is no instance of \<open>inserted\<close> and has no \<open>__table__\<close> for
  the message of the \<open>TypeError\<close>.
\<close>

definition ValuesQuery_render :: "'a values_query_scheme \<Rightarrow> py_error + (string \<times> dict)" where
  "ValuesQuery_render q =
     (case tables q of
        [] \<Rightarrow> Inl PyValueError
      | inserted # redundant \<Rightarrow>
          if redundant \<noteq> [] then Inl SingleTableInsert
          else
            (let cols = MetaModel_columns inserted in
             case py_iter model_of (values_list q) of
               Wrapped vs \<Rightarrow> if cols \<noteq> [] then Inl PyAttributeError else Inr ([], parameters q)
             | Same vs \<Rightarrow>
                 if cols \<noteq> [] \<and> vs \<noteq> [] then
                   (case render_rows inserted cols 0 vs (nl @ ''VALUES'', parameters q) of
                      Inl e \<Rightarrow> Inl e
                    | Inr (text, ps) \<Rightarrow> Inr (butlast text, ps))
                 else Inr ([], parameters q)))"

definition column_names :: "column list \<Rightarrow> string" where
  "column_names cs = py_join '', '' (map name cs)"

text \<open>
  The pieces \<open>InsertQuery._render\<close> puts around the VALUES: the INSERT clause, the
  clause of an upsert (\<open>ss\<close> are the columns as \<open>str\<close> prints them), and the closing
  \<open>ON CONFLICT ... DO NOTHING\<close> with \<open>RETURNING\<close>, which are added in every case.
\<close>

definition insert_into :: "model \<Rightarrow> string" where
  "insert_into t =
     ''INSERT INTO '' @ MetaModel_str t @ nl @ tab
     @ ''('' @ column_names (MetaModel_columns t) @ '') ''"

definition do_update :: "model \<Rightarrow> string list \<Rightarrow> string" where
  "do_update t ss =
     nl @ ''ON CONFLICT'' @ nl @ tab
     @ ''('' @ column_names (MetaModel_primary_keys t) @ '')''
     @ nl @ ''DO UPDATE '' @ MetaModel_str t
     @ nl @ ''SET'' @ nl @ tab
     @ py_join (nl @ tab)
         (map (\<lambda>(c, s). dq @ name c @ dq @ '' = '' @ s) (zip (MetaModel_columns t) ss))"

definition do_nothing_returning :: "model \<Rightarrow> string" where
  "do_nothing_returning t =
     nl @ ''ON CONFLICT ('' @ column_names (MetaModel_primary_keys t) @ '') DO NOTHING''
     @ nl @ ''RETURNING'' @ nl @ tab
     @ ''('' @ column_names (MetaModel_columns t) @ '')''"

definition InsertQuery_render :: "insert_query \<Rightarrow> py_error + (string \<times> dict)" where
  "InsertQuery_render q =
     (case ValuesQuery_render q of
        Inl e \<Rightarrow> Inl e
      | Inr (text, ps) \<Rightarrow>
          if text = [] then Inr (py_strip [], ps)
          else
            (case Query_table q of
               None \<Rightarrow> Inl PyAttributeError
             | Some t \<Rightarrow>
                 (case (if upsert q then
                          (case str_columns (MetaModel_columns t) of
                             Inl e \<Rightarrow> Inl e
                           | Inr ss \<Rightarrow> Inr (do_update t ss))
                        else Inr [])
                  of
                    Inl e \<Rightarrow> Inl e
                  | Inr upd \<Rightarrow>
                      Inr (py_strip (insert_into t @ text @ upd @ do_nothing_returning t),
                           ps))))"

subsection \<open>The VALUES of an INSERT, cell by cell\<close>

text \<open>
  What the specification says of one (row, column) pair, with the validation left out:
  a \<open>RandExpr\<close> gives its raw SQL and binds nothing, any other value gives the
  placeholder of the parameter \<open><table>_<column>_<rowIndex>\<close> and is bound under
  that name. A row is its cells between parentheses, the VALUES are the rows.
\<close>

definition cell_name :: "model \<Rightarrow> nat \<Rightarrow> column \<Rightarrow> string" where
  "cell_name t number c = table_name t @ ''_'' @ name c @ ''_'' @ str_nat number"

definition cell_sql :: "model \<Rightarrow> nat \<Rightarrow> base_model \<Rightarrow> column \<Rightarrow> string" where
  "cell_sql t number v c =
     (case getattr v c of
        PRandExpr raw \<Rightarrow> raw
      | x \<Rightarrow> ''%('' @ cell_name t number c @ '')s'')"

definition cell_bind :: "model \<Rightarrow> nat \<Rightarrow> base_model \<Rightarrow> column \<Rightarrow> dict \<Rightarrow> dict" where
  "cell_bind t number v c ps =
     (case getattr v c of
        PRandExpr raw \<Rightarrow> ps
      | x \<Rightarrow> ps(cell_name t number c \<mapsto> x))"

definition row_sql :: "model \<Rightarrow> column list \<Rightarrow> nat \<times> base_model \<Rightarrow> string" where
  "row_sql t cols nv =
     nl @ tab @ ''('' @ py_join '', '' (map (cell_sql t (fst nv) (snd nv)) cols) @ '')''"

definition row_bind :: "model \<Rightarrow> column list \<Rightarrow> nat \<times> base_model \<Rightarrow> dict \<Rightarrow> dict" where
  "row_bind t cols nv ps = fold (cell_bind t (fst nv) (snd nv)) cols ps"

definition values_sql :: "model \<Rightarrow> base_model list \<Rightarrow> string" where
  "values_sql t vs =
     nl @ ''VALUES'' @ py_join '','' (map (row_sql t (MetaModel_columns t)) (enumerate 0 vs))"

definition values_bind :: "model \<Rightarrow> base_model list \<Rightarrow> dict \<Rightarrow> dict" where
  "values_bind t vs ps = fold (row_bind t (MetaModel_columns t)) (enumerate 0 vs) ps"

section \<open>Two tables for the examples\<close>

text \<open>
  \<open>class A(BaseModel)\<close> with \<open>__table__ = "a"\<close> and \<open>id = Serial("id", primary_key=True)\<close>,
  and \<open>class B(BaseModel)\<close> with \<open>__table__ = "b"\<close>, \<open>a_id = Integer("a_id", not_null=True)\<close>
  and \<open>id = Serial("id", primary_key=True)\<close>, both in the default schema \<open>public\<close>.
\<close>

definition id_decl :: column_decl where
  "id_decl =
     \<lparr> name = ''id'', primary_key = True, unique = True, not_null = True,
       default_value = PNone, ctype = Serial, pyclass = 0 \<rparr>"

definition a_id_decl :: column_decl where
  "a_id_decl =
     \<lparr> name = ''a_id'', primary_key = False, unique = False, not_null = True,
       default_value = PNone, ctype = Integer, pyclass = 1 \<rparr>"

definition table_A :: model where
  "table_A =
     \<lparr> cls_name = ''A'', schema_name = ''public'', table_name = ''a'', attrs = [id_decl] \<rparr>"

definition table_B :: model where
  "table_B =
     \<lparr> cls_name = ''B'', schema_name = ''public'', table_name = ''b'',
       attrs = [a_id_decl, id_decl] \<rparr>"

text \<open>\<open>A.id\<close>, \<open>B.a_id\<close> and \<open>B.id\<close>.\<close>

definition A_id :: column where
  "A_id = Column_get table_A id_decl"

definition B_a_id :: column where
  "B_a_id = Column_get table_B a_id_decl"

definition B_id :: column where
  "B_id = Column_get table_B id_decl"

text \<open>A query on the given tables with every other field at its default.\<close>

definition filter_query_on :: "model list \<Rightarrow> filter_query" where
  "filter_query_on ts =
     \<lparr> parameters = Map.empty, tables = ts, joins = [], filters = [], order_by = None,
       ascending = True, limit = PNone, offset = PNone \<rparr>"

definition select_query_on :: "model list \<Rightarrow> column list \<Rightarrow> select_query" where
  "select_query_on ts cs =
     \<lparr> parameters = Map.empty, tables = ts, joins = [], filters = [], order_by = None,
       ascending = True, limit = PNone, offset = PNone, columns = cs \<rparr>"

definition insert_query_on :: "model list \<Rightarrow> base_model list \<Rightarrow> insert_query" where
  "insert_query_on ts vs =
     \<lparr> parameters = Map.empty, tables = ts, values_list = vs, upsert = False \<rparr>"

definition update_query_on :: "model list \<Rightarrow> (string \<times> pyval) list \<Rightarrow> update_query" where
  "update_query_on ts vs =
     \<lparr> parameters = Map.empty, tables = ts, joins = [], filters = [], order_by = None,
       ascending = True, limit = PNone, offset = PNone, values_dict = vs \<rparr>"

section \<open>Theorems\<close>

lemma logical_loop_eq:
  "logical_loop es (ops, ps) = (ops @ map fst es, foldl (++) ps (map param_map es))"
  by (induction es arbitrary: ops ps) (auto simp: param_map_def)

lemma foldl_map_add_last:
  "foldl (++) m (map param_map es) k =
     (case filter (\<lambda>e. param_map e k \<noteq> None) es of
        [] \<Rightarrow> m k
      | x # xs \<Rightarrow> param_map (last (x # xs)) k)"
proof (induction es rule: rev_induct)
  case Nil
  then show ?case by simp
next
  case (snoc e es)
  show ?case
  proof (cases "param_map e k")
    case None
    with snoc show ?thesis by (simp add: map_add_def)
  next
    case (Some v)
    then show ?thesis
      by (cases "filter (\<lambda>e. param_map e k \<noteq> None) es") (simp_all add: map_add_def)
  qed
qed

lemma foldl_map_add_merged: "foldl (++) Map.empty (map param_map es) = merged es"
  by (rule ext) (simp add: foldl_map_add_last merged_def)

text \<open>
  C8. \<open>and_\<close> and \<open>or_\<close> (every operator of the factory) return one expression: the
  fragments joined by the operator between one pair of parentheses, and a parameter
  dictionary that is the merge of the input maps, later entries winning.
\<close>

theorem logical_expr_joins_and_merges:
  "logical_expr operator es =
     (''('' @ py_join ('' '' @ operator @ '' '') (map fst es) @ '')'', Some (merged es))
   \<and> and_expr es = logical_expr ''AND'' es \<and> or_expr es = logical_expr ''OR'' es"
  by (simp add: logical_expr_def logical_loop_eq foldl_map_add_merged and_expr_def or_expr_def)

theorem logical_expr_joins_and_merges_witness:
  "and_expr [(''expr1'', Some [''p1'' \<mapsto> PInt 1]), (''expr2'', Some [''p2'' \<mapsto> PInt 2])] =
     (''(expr1 AND expr2)'',
      Some (merged [(''expr1'', Some [''p1'' \<mapsto> PInt 1]), (''expr2'', Some [''p2'' \<mapsto> PInt 2])]))
   \<and> merged [(''expr1'', Some [''p1'' \<mapsto> PInt 1]), (''expr2'', Some [''p2'' \<mapsto> PInt 2])] ''p1''
       = Some (PInt 1)
   \<and> merged [(''expr1'', Some [''p1'' \<mapsto> PInt 1]), (''expr2'', Some [''p2'' \<mapsto> PInt 2])] ''p2''
       = Some (PInt 2)"
  using logical_expr_joins_and_merges [of "''AND''"
      "[(''expr1'', Some [''p1'' \<mapsto> PInt 1]), (''expr2'', Some [''p2'' \<mapsto> PInt 2])]"]
  by (simp add: merged_def param_map_def)

subsection \<open>Column names, Boolean conversion, idempotent conversion\<close>

lemma re_match_iff: "re_match nm \<longleftrightarrow> nm \<noteq> [] \<and> in_class (hd nm)"
  by (cases nm) simp_all

text \<open>
  C5. A column name must consist of letters, digits and underscores only, and any other
  character must make \<open>Column.__init__\<close> raise. The source tests the first character
  only: the name \<open>a b\<close> is accepted, although it holds a space.
\<close>

theorem Column_init_first_character_only:
  "Column_init Integer 0 ''a b'' False False False PNone =
     Inr \<lparr> name = ''a b'', primary_key = False, unique = False, not_null = False,
           default_value = PNone, ctype = Integer, pyclass = 0, table = None \<rparr>
   \<and> \<not> list_all in_class ''a b''"
  by (simp add: Column_init_def in_class_def)

lemma lower_char_neq_F: "lower_char c \<noteq> CHR ''F''"
proof -
  have "of_char (lower_char c) \<noteq> (70::nat)"
    unfolding lower_char_def Let_def
    by auto
  then show ?thesis by auto
qed

lemma py_lower_neq_FALSE: "py_lower s \<noteq> ''FALSE''"
proof
  assume "py_lower s = ''FALSE''"
  then have "hd (py_lower s) = CHR ''F''" and "s \<noteq> []" by (auto simp: py_lower_def)
  then have "lower_char (hd s) = CHR ''F''" by (simp add: py_lower_def hd_map)
  then show False using lower_char_neq_F by blast
qed

lemma py_lower_examples:
  "py_lower ''FALSE'' = ''false''" "py_lower ''0'' = ''0''" "py_lower ''yes'' = ''yes''"
  by code_simp+

text \<open>
  C7. \<open>Boolean.convert\<close> maps a string to \<open>False\<close> when its lower case is \<open>0\<close>, \<open>f\<close> or
  \<open>false\<close> and to \<open>True\<close> otherwise (the entry \<open>FALSE\<close> of the source's tuple never
  matches a lower-cased string); \<open>convert("FALSE")\<close> and \<open>convert("0")\<close> are \<open>False\<close>,
  \<open>convert("yes")\<close> is \<open>True\<close>, and \<open>convert(1)\<close> is the integer \<open>1\<close>, which equals \<open>True\<close>.
\<close>

theorem Boolean_convert_values:
  "Boolean_convert rt (PStr s) = Inr (PBool (py_lower s \<notin> {''0'', ''f'', ''false''}))
   \<and> Boolean_convert rt (PStr ''FALSE'') = Inr (PBool False)
   \<and> Boolean_convert rt (PStr ''0'') = Inr (PBool False)
   \<and> Boolean_convert rt (PStr ''yes'') = Inr (PBool True)
   \<and> Boolean_convert rt (PInt 1) = Inr (PInt 1)
   \<and> py_eq (PInt 1) (PBool True) = Some True"
proof -
  have general: "Boolean_convert rt (PStr s) = Inr (PBool (py_lower s \<notin> {''0'', ''f'', ''false''}))"
    for s
    by (simp add: Boolean_convert_def py_lower_neq_FALSE)
  have "Boolean_convert rt (PInt 1) = Inr (PInt 1)"
    by (simp add: Boolean_convert_def Column_convert_def)
  with general [of s] general [of "''FALSE''"] general [of "''0''"] general [of "''yes''"]
  show ?thesis
    by (simp add: py_lower_examples)
qed

theorem Boolean_convert_values_witness:
  "Boolean_convert sample_runtime (PStr ''False'') = Inr (PBool False)
   \<and> Boolean_convert sample_runtime (PStr ''yes'') = Inr (PBool True)"
proof -
  have "py_lower ''False'' = ''false''" by code_simp
  with Boolean_convert_values [of sample_runtime "''False''"] show ?thesis by simp
qed

lemma try_types_Inr: "try_types call Ts v = Inr r \<Longrightarrow> \<exists>T \<in> set Ts. call T v = Some r"
  by (induction Ts) (auto split: option.splits)

lemma Column_convert_typed:
  assumes "runtime_ok rt" and "Column_convert rt S v = Inr r"
  shows "type_of r \<in> insert Ty_RandExpr S"
proof (cases "type_of v \<in> insert Ty_RandExpr S")
  case True
  with assms(2) show ?thesis by (simp add: Column_convert_def)
next
  case False
  with assms(2) have "try_types (construct rt) (iterate rt S) v = Inr r"
    by (simp add: Column_convert_def)
  then obtain T where "T \<in> set (iterate rt S)" and "construct rt T v = Some r"
    using try_types_Inr by blast
  with assms(1) have "T \<in> S" and "type_of r = T" by (auto simp: runtime_ok_def)
  then show ?thesis by simp
qed

lemma Column_convert_fixed: "type_of r \<in> insert Ty_RandExpr S \<Longrightarrow> Column_convert rt S r = Inr r"
  by (simp add: Column_convert_def)

lemma Boolean_convert_idem:
  assumes "runtime_ok rt" and "Boolean_convert rt v = Inr r"
  shows "Boolean_convert rt r = Inr r"
proof (cases "\<exists>s. v = PStr s")
  case True
  with assms(2) obtain b where "r = PBool b" by (auto simp: Boolean_convert_def)
  then show ?thesis by (simp add: Boolean_convert_def Column_convert_def)
next
  case False
  with assms(2) have "Column_convert rt (TYPES Boolean) v = Inr r"
    by (cases v) (simp_all add: Boolean_convert_def)
  with assms(1) have t: "type_of r \<in> insert Ty_RandExpr (TYPES Boolean)"
    by (rule Column_convert_typed)
  then have "Column_convert rt (TYPES Boolean) r = Inr r" by (rule Column_convert_fixed)
  moreover from t have "\<not> (\<exists>s. r = PStr s)" by auto
  ultimately show ?thesis by (cases r) (simp_all add: Boolean_convert_def)
qed

lemma Date_convert_idem:
  assumes "runtime_ok rt" and "Date_convert rt v = Inr r"
  shows "Date_convert rt r = Inr r"
proof -
  have "type_of r \<in> insert Ty_RandExpr (TYPES Date)"
  proof (cases "Column_convert rt (TYPES Date) v")
    case (Inr x)
    with assms(2) have "x = r" by (simp add: Date_convert_def)
    with Inr assms(1) show ?thesis using Column_convert_typed by blast
  next
    case (Inl e)
    with assms(2) obtain s where "date_fromisoformat rt s = Some r"
      by (auto simp: Date_convert_def split: pyval.splits option.splits)
    with assms(1) show ?thesis by (auto simp: runtime_ok_def)
  qed
  then have "Column_convert rt (TYPES Date) r = Inr r" by (rule Column_convert_fixed)
  then show ?thesis by (simp add: Date_convert_def)
qed

lemma TimeStampTZ_convert_idem:
  assumes "runtime_ok rt" and "TimeStampTZ_convert rt v = Inr r"
  shows "TimeStampTZ_convert rt r = Inr r"
proof -
  have "type_of r \<in> insert Ty_RandExpr (TYPES TimeStampTZ)"
  proof (cases "Column_convert rt (TYPES TimeStampTZ) v")
    case (Inr x)
    with assms(2) have "x = r" by (simp add: TimeStampTZ_convert_def)
    with Inr assms(1) show ?thesis using Column_convert_typed by blast
  next
    case (Inl e)
    with assms(2) have "(\<exists>s. datetime_fromisoformat rt s = Some r)
        \<or> (\<exists>s f. datetime_strptime rt s f = Some r)"
      by (auto simp: TimeStampTZ_convert_def split: pyval.splits option.splits)
    with assms(1) show ?thesis by (auto simp: runtime_ok_def)
  qed
  then have "Column_convert rt (TYPES TimeStampTZ) r = Inr r" by (rule Column_convert_fixed)
  then show ?thesis by (simp add: TimeStampTZ_convert_def)
qed

lemma convert_returns_result:
  assumes "runtime_ok rt" and "convert rt t x = Inr y"
  shows "convert rt t y = Inr y"
proof (cases t)
  case Boolean
  with assms show ?thesis by (simp add: Boolean_convert_idem)
next
  case Date
  with assms show ?thesis by (simp add: Date_convert_idem)
next
  case TimeStampTZ
  with assms show ?thesis by (simp add: TimeStampTZ_convert_idem)
qed (use assms in \<open>auto dest!: Column_convert_typed intro!: Column_convert_fixed\<close>)

lemma set_all_pytypes: "set all_pytypes = UNIV"
proof -
  have "T \<in> set all_pytypes" for T by (cases T) (simp_all add: all_pytypes_def)
  then show ?thesis by auto
qed

lemma sample_construct_typed: "sample_construct T v = Some r \<Longrightarrow> type_of r = T"
  by (induction T v rule: sample_construct.induct) auto

lemma sample_runtime_ok: "runtime_ok sample_runtime"
  by (auto simp: runtime_ok_def sample_runtime_def set_all_pytypes sample_construct_typed)

lemma py_eq_self: "py_eq y y = Some (\<not> is_nan y)"
  by (cases y) (simp_all add: float_eq_def decimal_eq_def)

lemma nan_example: "float_is_nan 0x7FF8000000000000"
  by (simp add: float_is_nan_def)

text \<open>
  C6 (as amended). For every concrete column class and every value \<open>x\<close> that \<open>convert\<close>
  accepts, converting the result again returns that same result, whatever the
  interpreter's constructors, parsers and set order are; and
  \<open>convert(convert(x)) == convert(x)\<close> is true exactly when the result is not a NaN.
\<close>

theorem convert_idempotent_unless_nan:
  assumes "runtime_ok rt" and "convert rt t x = Inr y"
  shows "convert rt t y = Inr y \<and> py_eq y y = Some (\<not> is_nan y)"
  using convert_returns_result [OF assms] py_eq_self by simp

theorem convert_idempotent_unless_nan_witness:
  "runtime_ok sample_runtime
   \<and> convert sample_runtime Integer (PBool True) = Inr (PInt 1)
   \<and> convert sample_runtime Integer (PInt 1) = Inr (PInt 1)
   \<and> py_eq (PInt 1) (PInt 1) = Some True"
proof -
  have c: "convert sample_runtime Integer (PBool True) = Inr (PInt 1)"
    by (simp add: Column_convert_def sample_runtime_def all_pytypes_def)
  from convert_idempotent_unless_nan [OF sample_runtime_ok c] c sample_runtime_ok
  show ?thesis by simp
qed

text \<open>
  The claim as written fails on a NaN: \<open>Numeric[6, 2].convert(float("nan"))\<close> returns
  its argument, a \<open>float\<close> being in \<open>_TYPES\<close>, and so does the second \<open>convert\<close>; the two
  results are the same object, and \<open>nan == nan\<close> is false.
\<close>

theorem convert_nan_counterexample:
  "convert sample_runtime (Numeric (Some (6, 2))) (PFloat 0x7FF8000000000000) =
     Inr (PFloat 0x7FF8000000000000)
   \<and> py_eq (PFloat 0x7FF8000000000000) (PFloat 0x7FF8000000000000) = Some False"
  by (simp add: Column_convert_def float_eq_def nan_example)

subsection \<open>Numeric validation\<close>

lemma py_le_ints: "int_value a = Some i \<Longrightarrow> int_value b = Some j \<Longrightarrow> py_le rt a b = Inr (i \<le> j)"
  by (simp add: py_le_def)

lemma py_le_numbers:
  "is_number a \<Longrightarrow> is_number b \<Longrightarrow> \<exists>r. py_le rt a b = Inr r"
  by (auto simp: py_le_def split: option.splits)

lemma Numeric_validate_numbers:
  assumes "is_numeric (ctype c)" "MIN_value (ctype c) = PInt lo" "MAX_value (ctype c) = PInt hi"
    "\<not> (not_null c \<and> v = PNone)" "convert rt (ctype c) v = Inr x" "is_number x"
  shows "validate rt c v =
     (if py_le rt (PInt lo) x = Inr True \<and> py_le rt x (PInt hi) = Inr True then Inr ()
      else Inl OutOfRange)"
proof -
  have n: "is_number (PInt lo)" "is_number (PInt hi)" by (simp_all add: is_number_def)
  obtain a where a: "py_le rt (PInt lo) x = Inr a" using py_le_numbers [OF n(1) assms(6)] by blast
  obtain b where b: "py_le rt x (PInt hi) = Inr b" using py_le_numbers [OF assms(6) n(2)] by blast
  from assms have "Column_validate rt c v = Inr ()" by (auto simp: Column_validate_def)
  then show ?thesis
    using assms(1,2,3,5) by (simp add: validate_def Numeric_validate_def a b)
qed

text \<open>
  C9. For an \<open>Integer\<close> column \<open>validate(2**31)\<close> raises the out-of-range \<open>ValueError\<close> and
  \<open>validate(2**31 - 1)\<close> returns. In general, on a numeric column with bounds, a value
  that passes the NOT NULL check and converts to a number is valid exactly when
  \<open>_MIN <= converted <= _MAX\<close>, and is refused as out of range otherwise; when the
  converted value is an integer \<open>i\<close> that is \<open>lo \<le> i \<le> hi\<close>.
\<close>

theorem Numeric_validate_range:
  "(is_numeric (ctype c) \<and> MIN_value (ctype c) = PInt lo \<and> MAX_value (ctype c) = PInt hi
      \<and> \<not> (not_null c \<and> v = PNone) \<and> convert rt (ctype c) v = Inr x \<and> is_number x
     \<longrightarrow> validate rt c v =
           (if py_le rt (PInt lo) x = Inr True \<and> py_le rt x (PInt hi) = Inr True then Inr ()
            else Inl OutOfRange)
         \<and> (\<forall>i. int_value x = Some i \<longrightarrow>
               validate rt c v = (if lo \<le> i \<and> i \<le> hi then Inr () else Inl OutOfRange)))
   \<and> (ctype c = Integer
     \<longrightarrow> validate rt c (PInt (2 ^ 31)) = Inl OutOfRange
       \<and> validate rt c (PInt (2 ^ 31 - 1)) = Inr ())"
proof -
  have general: "validate rt c v =
           (if py_le rt (PInt lo) x = Inr True \<and> py_le rt x (PInt hi) = Inr True then Inr ()
            else Inl OutOfRange)
         \<and> (\<forall>i. int_value x = Some i \<longrightarrow>
               validate rt c v = (if lo \<le> i \<and> i \<le> hi then Inr () else Inl OutOfRange))"
    if "is_numeric (ctype c)" "MIN_value (ctype c) = PInt lo" "MAX_value (ctype c) = PInt hi"
       "\<not> (not_null c \<and> v = PNone)" "convert rt (ctype c) v = Inr x" "is_number x"
    for v x lo hi
    using Numeric_validate_numbers [OF that] by (simp add: py_le_ints)
  have conv: "convert rt Integer (PInt k) = Inr (PInt k)" for k
    by (simp add: Column_convert_def)
  have num: "is_number (PInt k)" for k by (simp add: is_number_def)
  have "validate rt c (PInt (2 ^ 31)) = Inl OutOfRange" if "ctype c = Integer"
    using general [of "- (2 ^ 31)" "2 ^ 31 - 1" "PInt (2 ^ 31)" "PInt (2 ^ 31)"] that conv num
    by (simp add: py_le_def)
  moreover have "validate rt c (PInt (2 ^ 31 - 1)) = Inr ()" if "ctype c = Integer"
    using general [of "- (2 ^ 31)" "2 ^ 31 - 1" "PInt (2 ^ 31 - 1)" "PInt (2 ^ 31 - 1)"]
      that conv num
    by (simp add: py_le_def)
  ultimately show ?thesis using general by blast
qed

theorem Numeric_validate_range_witness:
  "validate sample_runtime B_a_id (PInt (2 ^ 31)) = Inl OutOfRange
   \<and> validate sample_runtime B_a_id (PInt (2 ^ 31 - 1)) = Inr ()
   \<and> validate sample_runtime B_a_id (PBool True) = Inr ()
   \<and> validate sample_runtime B_id (PInt (- 1)) = Inl OutOfRange"
proof -
  have 1: "ctype B_a_id = Integer" "is_numeric (ctype B_a_id)" "is_numeric (ctype B_id)"
      "MIN_value (ctype B_a_id) = PInt (- (2 ^ 31))" "MAX_value (ctype B_a_id) = PInt (2 ^ 31 - 1)"
      "MIN_value (ctype B_id) = PInt 0" "MAX_value (ctype B_id) = PInt (2 ^ 31 - 1)"
    by (simp_all add: B_a_id_def B_id_def Column_get_def a_id_decl_def id_decl_def)
  have 2: "convert sample_runtime (ctype B_a_id) (PBool True) = Inr (PInt 1)"
    "convert sample_runtime (ctype B_id) (PInt (- 1)) = Inr (PInt (- 1))"
    by (simp_all add: B_a_id_def B_id_def Column_get_def a_id_decl_def id_decl_def
        Column_convert_def sample_runtime_def all_pytypes_def)
  have 3: "is_number (PInt k)" for k by (simp add: is_number_def)
  from Numeric_validate_range [of B_a_id "- (2 ^ 31)" "2 ^ 31 - 1" "PBool True" sample_runtime "PInt 1"]
    Numeric_validate_range [of B_id 0 "2 ^ 31 - 1" "PInt (- 1)" sample_runtime "PInt (- 1)"]
    1 2 3
  show ?thesis by (simp add: py_le_def)
qed

subsection \<open>LIMIT and OFFSET\<close>

lemma render_bound_falsy: "\<not> py_truthy v \<Longrightarrow> render_bound kw err v = Inr []"
  by (simp add: render_bound_def)

lemma FilterQuery_render_zero:
  "FilterQuery_render rt (q\<lparr>limit := PInt 0\<rparr>) = FilterQuery_render rt (q\<lparr>limit := PNone\<rparr>)"
  "FilterQuery_render rt (q\<lparr>offset := PInt 0\<rparr>) = FilterQuery_render rt (q\<lparr>offset := PNone\<rparr>)"
  by (simp_all add: FilterQuery_render_def render_bound_def split: sum.splits prod.splits)

lemma limit_irrelevant:
  "selected_columns r (q\<lparr>limit := x\<rparr>) = selected_columns r q"
  "Query_table (q'\<lparr>limit := x\<rparr>) = Query_table q'"
  "tables (q'\<lparr>limit := x\<rparr>) = tables q'"
  "parameters (q'\<lparr>limit := x\<rparr>) = parameters q'"
  "values_dict (u\<lparr>limit := x\<rparr>) = values_dict u"
  by (simp_all add: selected_columns_def Query_table_def split: itered.splits)

lemma offset_irrelevant:
  "selected_columns r (q\<lparr>offset := x\<rparr>) = selected_columns r q"
  "Query_table (q'\<lparr>offset := x\<rparr>) = Query_table q'"
  "tables (q'\<lparr>offset := x\<rparr>) = tables q'"
  "parameters (q'\<lparr>offset := x\<rparr>) = parameters q'"
  "values_dict (u\<lparr>offset := x\<rparr>) = values_dict u"
  by (simp_all add: selected_columns_def Query_table_def split: itered.splits)

lemma SelectQuery_render_zero:
  "SelectQuery_render rt r (q\<lparr>limit := PInt 0\<rparr>) = SelectQuery_render rt r (q\<lparr>limit := PNone\<rparr>)"
  "SelectQuery_render rt r (q\<lparr>offset := PInt 0\<rparr>) = SelectQuery_render rt r (q\<lparr>offset := PNone\<rparr>)"
  unfolding SelectQuery_render_def limit_irrelevant offset_irrelevant FilterQuery_render_zero
  by simp_all

lemma DeleteQuery_render_zero:
  "DeleteQuery_render rt (d\<lparr>limit := PInt 0\<rparr>) = DeleteQuery_render rt (d\<lparr>limit := PNone\<rparr>)"
  "DeleteQuery_render rt (d\<lparr>offset := PInt 0\<rparr>) = DeleteQuery_render rt (d\<lparr>offset := PNone\<rparr>)"
  unfolding DeleteQuery_render_def limit_irrelevant offset_irrelevant FilterQuery_render_zero
  by simp_all

lemma UpdateQuery_render_zero:
  "UpdateQuery_render rt (u\<lparr>limit := PInt 0\<rparr>) = UpdateQuery_render rt (u\<lparr>limit := PNone\<rparr>)"
  "UpdateQuery_render rt (u\<lparr>offset := PInt 0\<rparr>) = UpdateQuery_render rt (u\<lparr>offset := PNone\<rparr>)"
proof -
  have l: "u\<lparr>limit := x, parameters := ps\<rparr> = u\<lparr>parameters := ps, limit := x\<rparr>" for x ps
    by simp
  have o: "u\<lparr>offset := x, parameters := ps\<rparr> = u\<lparr>parameters := ps, offset := x\<rparr>" for x ps
    by simp
  show "UpdateQuery_render rt (u\<lparr>limit := PInt 0\<rparr>) = UpdateQuery_render rt (u\<lparr>limit := PNone\<rparr>)"
    unfolding UpdateQuery_render_def l limit_irrelevant FilterQuery_render_zero by simp
  show "UpdateQuery_render rt (u\<lparr>offset := PInt 0\<rparr>) = UpdateQuery_render rt (u\<lparr>offset := PNone\<rparr>)"
    unfolding UpdateQuery_render_def o offset_irrelevant FilterQuery_render_zero by simp
qed

text \<open>
  C10. A \<open>limit\<close> (an \<open>offset\<close>) of 0 is rendered as an unset one: the clause step returns
  without text and without error, and the query renders as it does with \<open>None\<close>, for
  \<open>_FilterQuery._render\<close> and for the Select, Delete and Update built on it. The clause
  step raises exactly for a value that is true and is not an \<open>int\<close> or is negative, so
  a false value never raises.
\<close>

theorem zero_limit_offset_is_unset:
  "FilterQuery_render rt (q\<lparr>limit := PInt 0\<rparr>) = FilterQuery_render rt (q\<lparr>limit := PNone\<rparr>)
   \<and> FilterQuery_render rt (q\<lparr>offset := PInt 0\<rparr>) = FilterQuery_render rt (q\<lparr>offset := PNone\<rparr>)
   \<and> SelectQuery_render rt r (s\<lparr>limit := PInt 0\<rparr>) = SelectQuery_render rt r (s\<lparr>limit := PNone\<rparr>)
   \<and> SelectQuery_render rt r (s\<lparr>offset := PInt 0\<rparr>) = SelectQuery_render rt r (s\<lparr>offset := PNone\<rparr>)
   \<and> DeleteQuery_render rt (d\<lparr>limit := PInt 0\<rparr>) = DeleteQuery_render rt (d\<lparr>limit := PNone\<rparr>)
   \<and> DeleteQuery_render rt (d\<lparr>offset := PInt 0\<rparr>) = DeleteQuery_render rt (d\<lparr>offset := PNone\<rparr>)
   \<and> UpdateQuery_render rt (u\<lparr>limit := PInt 0\<rparr>) = UpdateQuery_render rt (u\<lparr>limit := PNone\<rparr>)
   \<and> UpdateQuery_render rt (u\<lparr>offset := PInt 0\<rparr>) = UpdateQuery_render rt (u\<lparr>offset := PNone\<rparr>)
   \<and> render_bound kw err (PInt 0) = Inr []
   \<and> render_bound kw err PNone = Inr []
   \<and> (render_bound kw err v = Inl err \<longleftrightarrow>
        py_truthy v \<and> (int_value v = None \<or> (\<exists>i. int_value v = Some i \<and> i < 0)))"
proof -
  have "render_bound kw err v = Inl err \<longleftrightarrow>
        py_truthy v \<and> (int_value v = None \<or> (\<exists>i. int_value v = Some i \<and> i < 0))"
    by (cases "int_value v") (auto simp: render_bound_def)
  then show ?thesis
    by (simp add: FilterQuery_render_zero SelectQuery_render_zero DeleteQuery_render_zero
        UpdateQuery_render_zero render_bound_falsy)
qed

theorem zero_limit_offset_is_unset_witness:
  "DeleteQuery_render sample_runtime ((filter_query_on [table_A])\<lparr>limit := PInt 0\<rparr>) =
     Inr (''DELETE FROM '' @ dq @ ''public'' @ dq @ ''.'' @ dq @ ''a'' @ dq @ nl @ nl @ ''RETURNING *'',
          [table_A], Map.empty)
   \<and> render_bound ''LIMIT'' InvalidLimit (PInt (- 1)) = Inl InvalidLimit
   \<and> render_bound ''LIMIT'' InvalidLimit (PStr ''x'') = Inl InvalidLimit
   \<and> render_bound ''LIMIT'' InvalidLimit (PStr '''') = Inr []"
proof -
  have "FilterQuery_render sample_runtime ((filter_query_on [table_A])\<lparr>limit := PNone\<rparr>) =
      Inr ([], [table_A], Map.empty)"
    by (simp add: FilterQuery_render_def filter_query_on_def render_order_by_def render_bound_def
        render_where_def py_strip_def)
  with zero_limit_offset_is_unset [of sample_runtime "filter_query_on [table_A]" _ _ "filter_query_on [table_A]" _ "''LIMIT''" InvalidLimit "PInt (- 1)"]
    zero_limit_offset_is_unset [of sample_runtime "filter_query_on [table_A]" _ _ "filter_query_on [table_A]" _ "''LIMIT''" InvalidLimit "PStr ''x''"]
  show ?thesis
    by (simp add: DeleteQuery_render_def Query_table_def filter_query_on_def MetaModel_str_def table_A_def
       render_bound_def)
qed

subsection \<open>Join resolution\<close>

lemma example_tables: "table A_id = Some table_A" "table B_a_id = Some table_B"
  "table B_id = Some table_B" "table_A \<noteq> table_B"
  by (simp_all add: A_id_def B_a_id_def B_id_def Column_get_def table_A_def table_B_def)

text \<open>
  C1 (as amended). For two columns that have an owning table: when the table of the first
  column is in the running set, the join succeeds and joins the table of the second
  column, whether or not that one is in the set too; otherwise, when the table of the
  second column is in the set, it joins the table of the first; when neither is in the
  set it raises \<open>ValueError("Can't join - unknown tables provided")\<close>. The fragment is
  \<open><keyword> <newTable> ON <first> = <second>\<close>, with the two columns the other way
  round when the class of the second is a proper subclass of the class of the first.
\<close>

theorem join_clause_resolution:
  assumes "table first = Some t1" and "table second = Some t2"
  shows "join_clause rt keyword first second joined =
     (if t1 \<in> set joined then
        Inr (keyword @ '' '' @ MetaModel_str t2 @ nl @ tab @ ''ON ''
               @ (if proper_subclass (ctype second) (ctype first)
                  then column_text t2 second @ '' = '' @ column_text t1 first
                  else column_text t1 first @ '' = '' @ column_text t2 second), t2)
      else if t2 \<in> set joined then
        Inr (keyword @ '' '' @ MetaModel_str t1 @ nl @ tab @ ''ON ''
               @ (if proper_subclass (ctype second) (ctype first)
                  then column_text t2 second @ '' = '' @ column_text t1 first
                  else column_text t1 first @ '' = '' @ column_text t2 second), t1)
      else Inl UnknownJoinTables)"
  using assms
  by (simp add: join_clause_def Column_equals_def Column_eq_def comparator_def Column_str_def)

theorem join_clause_resolution_witness:
  "join_clause sample_runtime ''JOIN'' A_id B_a_id [table_A] =
     Inr (''JOIN '' @ dq @ ''public'' @ dq @ ''.'' @ dq @ ''b'' @ dq @ nl @ tab @ ''ON ''
            @ dq @ ''a'' @ dq @ ''.'' @ dq @ ''id'' @ dq @ '' = ''
            @ dq @ ''b'' @ dq @ ''.'' @ dq @ ''a_id'' @ dq, table_B)
   \<and> join_clause sample_runtime ''JOIN'' B_a_id A_id [table_A] =
     Inr (''JOIN '' @ dq @ ''public'' @ dq @ ''.'' @ dq @ ''b'' @ dq @ nl @ tab @ ''ON ''
            @ dq @ ''a'' @ dq @ ''.'' @ dq @ ''id'' @ dq @ '' = ''
            @ dq @ ''b'' @ dq @ ''.'' @ dq @ ''a_id'' @ dq, table_B)
   \<and> join_clause sample_runtime ''JOIN'' A_id B_a_id [] = Inl UnknownJoinTables"
proof -
  have c: "ctype A_id = Serial" "ctype B_a_id = Integer"
    "column_text table_A A_id = dq @ ''a'' @ dq @ ''.'' @ dq @ ''id'' @ dq"
    "column_text table_B B_a_id = dq @ ''b'' @ dq @ ''.'' @ dq @ ''a_id'' @ dq"
    "MetaModel_str table_B = dq @ ''public'' @ dq @ ''.'' @ dq @ ''b'' @ dq"
    by (simp_all add: A_id_def B_a_id_def Column_get_def id_decl_def a_id_decl_def
        column_text_def MetaModel_str_def table_A_def table_B_def)
  have s: "proper_subclass Serial Integer" "\<not> proper_subclass Integer Serial"
    by (simp_all add: proper_subclass_def)
  from join_clause_resolution [OF example_tables(1) example_tables(2), of sample_runtime "''JOIN''" "[table_A]"]
    join_clause_resolution [OF example_tables(2) example_tables(1), of sample_runtime "''JOIN''" "[table_A]"]
    join_clause_resolution [OF example_tables(1) example_tables(2), of sample_runtime "''JOIN''" "[]"]
  show ?thesis
    by (simp add: c s example_tables(4) [symmetric])
qed

text \<open>
  The claim as written fails when both tables are in the set: joining \<open>A.id\<close> to
  \<open>B.a_id\<close> with \<open>A\<close> and \<open>B\<close> both present succeeds, and joins \<open>B\<close> again.
\<close>

theorem join_clause_both_joined_counterexample:
  "table A_id = Some table_A \<and> table B_a_id = Some table_B
   \<and> table_A \<in> set [table_A, table_B] \<and> table_B \<in> set [table_A, table_B]
   \<and> join_clause sample_runtime ''JOIN'' A_id B_a_id [table_A, table_B] =
     Inr (''JOIN '' @ dq @ ''public'' @ dq @ ''.'' @ dq @ ''b'' @ dq @ nl @ tab @ ''ON ''
            @ dq @ ''a'' @ dq @ ''.'' @ dq @ ''id'' @ dq @ '' = ''
            @ dq @ ''b'' @ dq @ ''.'' @ dq @ ''a_id'' @ dq, table_B)"
  by (simp add: join_clause_def Column_equals_def proper_subclass_def Column_eq_def
      comparator_def Column_str_def column_text_def MetaModel_str_def table_A_def table_B_def
      A_id_def B_a_id_def Column_get_def id_decl_def a_id_decl_def)

subsection \<open>Queries without tables\<close>

lemma py_strip_Nil: "py_strip [] = []" by (simp add: py_strip_def)

text \<open>
  C2. A query without tables should render to the empty text. \<open>DeleteQuery\<close> does, and
  so does an \<open>UpdateQuery\<close> without values; but a \<open>SelectQuery\<close> without columns raises
  \<open>AttributeError\<close>, a \<open>SelectQuery\<close> with a column renders \<open>SELECT ... FROM None\<close>, an
  \<open>InsertQuery\<close> raises \<open>ValueError\<close> at the unpacking of its tables, and an
  \<open>UpdateQuery\<close> with values raises \<open>AttributeError\<close>.
\<close>

theorem empty_tables_renderings:
  "SelectQuery_render rt obj_repr (select_query_on [] []) = Inl PyAttributeError
   \<and> SelectQuery_render rt obj_repr (select_query_on [] [A_id]) =
       Inr (''SELECT'' @ nl @ tab @ dq @ ''a'' @ dq @ ''.'' @ dq @ ''id'' @ dq @ nl @ ''FROM None'',
            [], Map.empty)
   \<and> InsertQuery_render (insert_query_on [] vs) = Inl PyValueError
   \<and> UpdateQuery_render rt (update_query_on [] [(''id'', PInt 1)]) = Inl PyAttributeError
   \<and> UpdateQuery_render rt (update_query_on [] []) = Inr ([], [], Map.empty)
   \<and> DeleteQuery_render rt (filter_query_on []) = Inr ([], [], Map.empty)"
proof -
  have 1: "SelectQuery_render rt obj_repr (select_query_on [] []) = Inl PyAttributeError"
    by (simp add: SelectQuery_render_def selected_columns_def select_query_on_def py_iter_def
        Query_table_def)
  have f: "FilterQuery_render rt (select_query_on [] [A_id]) = Inr ([], [], Map.empty)"
    by (simp add: FilterQuery_render_def select_query_on_def render_order_by_def render_bound_def
        render_where_def py_strip_def)
  have s: "selected_columns obj_repr (select_query_on [] [A_id]) =
      Inr (dq @ ''a'' @ dq @ ''.'' @ dq @ ''id'' @ dq)"
    by (simp add: selected_columns_def select_query_on_def py_iter_def Column_str_def
        column_text_def A_id_def Column_get_def table_A_def id_decl_def)
  have st: "py_strip (''SELECT'' @ nl @ tab @ dq @ ''a'' @ dq @ ''.'' @ dq @ ''id'' @ dq @ nl @ ''FROM None'' @ nl)
     = ''SELECT'' @ nl @ tab @ dq @ ''a'' @ dq @ ''.'' @ dq @ ''id'' @ dq @ nl @ ''FROM None''"
    by (simp add: py_strip_def nl_def tab_def dq_def is_space_def)
  have t: "Query_table (select_query_on [] [A_id]) = None"
    by (simp add: Query_table_def select_query_on_def)
  have 2: "SelectQuery_render rt obj_repr (select_query_on [] [A_id]) =
       Inr (''SELECT'' @ nl @ tab @ dq @ ''a'' @ dq @ ''.'' @ dq @ ''id'' @ dq @ nl @ ''FROM None'',
            [], Map.empty)"
    using st by (simp add: SelectQuery_render_def s f t dq_def format_table_def)
  have 3: "InsertQuery_render (insert_query_on [] vs) = Inl PyValueError"
    by (simp add: InsertQuery_render_def ValuesQuery_render_def insert_query_on_def)
  have 4: "UpdateQuery_render rt (update_query_on [] [(''id'', PInt 1)]) = Inl PyAttributeError"
    by (simp add: UpdateQuery_render_def update_query_on_def Query_table_def)
  have 5: "UpdateQuery_render rt (update_query_on [] []) = Inr ([], [], Map.empty)"
    by (simp add: UpdateQuery_render_def update_query_on_def)
  have 6: "DeleteQuery_render rt (filter_query_on []) = Inr ([], [], Map.empty)"
    by (simp add: DeleteQuery_render_def filter_query_on_def Query_table_def)
  from 1 2 3 4 5 6 show ?thesis by blast
qed


subsection \<open>ORDER BY\<close>

lemma render_order_by_cases:
  "table c = Some t \<Longrightarrow>
   render_order_by (Some c) asc ts =
     (if t \<notin> set ts then Inl UnknownOrderColumn
      else if asc then Inr (nl @ ''ORDER BY '' @ column_text t c @ '' ASC'')
      else Inr ''DESC '')"
  by (simp add: render_order_by_def Column_str_def)

lemma FilterQuery_render_order_only:
  assumes "joins q = []" "filters q = []" "limit q = PNone" "offset q = PNone"
  shows "FilterQuery_render rt q =
     (case render_order_by (order_by q) (ascending q) (tables q) of
        Inl e \<Rightarrow> Inl e
      | Inr ob \<Rightarrow> Inr (py_strip ob, tables q, parameters q))"
  using assms
  by (simp add: FilterQuery_render_def render_bound_def render_where_def split: sum.splits)

lemma column_text_A_id: "column_text table_A A_id = dq @ ''a'' @ dq @ ''.'' @ dq @ ''id'' @ dq"
  by (simp add: column_text_def table_A_def A_id_def Column_get_def id_decl_def)

lemma selected_all_A:
  "selected_columns obj_repr ((select_query_on [table_A] [])\<lparr>order_by := ob, ascending := asc\<rparr>) =
     Inr (dq @ ''a'' @ dq @ ''.'' @ dq @ ''id'' @ dq)"
proof -
  have "str_columns (MetaModel_columns table_A) = Inr [column_text table_A A_id]"
    by (simp add: MetaModel_columns_def Column_str_def A_id_def table_A_def Column_get_def)
  then show ?thesis
    by (simp add: selected_columns_def select_query_on_def py_iter_def Query_table_def
        column_text_A_id)
qed

text \<open>
  C4. An \<open>order_by\<close> column of a table outside the query's tables makes the render
  raise, and with \<open>ascending=True\<close> the text has \<open>ORDER BY <column> ASC\<close>. With
  \<open>ascending=False\<close> it should have \<open>ORDER BY <column> DESC\<close>; the source writes \<open>DESC\<close>
  alone, without \<open>ORDER BY\<close> and without the column.
\<close>

theorem order_by_descending_loses_clause:
  "SelectQuery_render rt obj_repr
       ((select_query_on [table_A] [])\<lparr>order_by := Some A_id, ascending := False\<rparr>) =
     Inr (''SELECT'' @ nl @ tab @ dq @ ''a'' @ dq @ ''.'' @ dq @ ''id'' @ dq @ nl
            @ ''FROM '' @ dq @ ''public'' @ dq @ ''.'' @ dq @ ''a'' @ dq @ nl @ ''DESC'',
          [table_A], Map.empty)
   \<and> SelectQuery_render rt obj_repr
       ((select_query_on [table_A] [])\<lparr>order_by := Some A_id, ascending := True\<rparr>) =
     Inr (''SELECT'' @ nl @ tab @ dq @ ''a'' @ dq @ ''.'' @ dq @ ''id'' @ dq @ nl
            @ ''FROM '' @ dq @ ''public'' @ dq @ ''.'' @ dq @ ''a'' @ dq @ nl
            @ ''ORDER BY '' @ dq @ ''a'' @ dq @ ''.'' @ dq @ ''id'' @ dq @ '' ASC'',
          [table_A], Map.empty)
   \<and> SelectQuery_render rt obj_repr
       ((select_query_on [table_A] [])\<lparr>order_by := Some B_id, ascending := False\<rparr>) =
     Inl UnknownOrderColumn"
proof -
  let ?q = "\<lambda>c asc. (select_query_on [table_A] [])\<lparr>order_by := Some c, ascending := asc\<rparr>"
  have flds: "joins (?q c asc) = []" "filters (?q c asc) = []" "limit (?q c asc) = PNone"
    "offset (?q c asc) = PNone" "tables (?q c asc) = [table_A]" "parameters (?q c asc) = Map.empty"
    "order_by (?q c asc) = Some c" "ascending (?q c asc) = asc"
    "Query_table (?q c asc) = Some table_A" for c asc
    by (simp_all add: select_query_on_def Query_table_def)
  have f1: "FilterQuery_render rt (?q A_id False) = Inr (''DESC'', [table_A], Map.empty)"
    by (simp add: FilterQuery_render_order_only flds render_order_by_cases [OF example_tables(1)]
        py_strip_def is_space_def)
  have f2: "FilterQuery_render rt (?q A_id True) =
      Inr (''ORDER BY '' @ dq @ ''a'' @ dq @ ''.'' @ dq @ ''id'' @ dq @ '' ASC'', [table_A], Map.empty)"
    by (simp add: FilterQuery_render_order_only flds render_order_by_cases [OF example_tables(1)]
        column_text_A_id py_strip_def is_space_def nl_def dq_def)
  have f3: "FilterQuery_render rt (?q B_id False) = Inl UnknownOrderColumn"
    by (simp add: FilterQuery_render_order_only flds render_order_by_cases [OF example_tables(3)]
        example_tables(4) [symmetric])
  have fmt: "format_table (Some table_A) = dq @ ''public'' @ dq @ ''.'' @ dq @ ''a'' @ dq"
    by (simp add: format_table_def MetaModel_str_def table_A_def)
  have 1: "SelectQuery_render rt obj_repr (?q A_id False) =
     Inr (''SELECT'' @ nl @ tab @ dq @ ''a'' @ dq @ ''.'' @ dq @ ''id'' @ dq @ nl
            @ ''FROM '' @ dq @ ''public'' @ dq @ ''.'' @ dq @ ''a'' @ dq @ nl @ ''DESC'',
          [table_A], Map.empty)"
    unfolding SelectQuery_render_def selected_all_A flds f1 fmt
    by (simp add: dq_def nl_def tab_def py_strip_def is_space_def)
  have 2: "SelectQuery_render rt obj_repr (?q A_id True) =
     Inr (''SELECT'' @ nl @ tab @ dq @ ''a'' @ dq @ ''.'' @ dq @ ''id'' @ dq @ nl
            @ ''FROM '' @ dq @ ''public'' @ dq @ ''.'' @ dq @ ''a'' @ dq @ nl
            @ ''ORDER BY '' @ dq @ ''a'' @ dq @ ''.'' @ dq @ ''id'' @ dq @ '' ASC'',
          [table_A], Map.empty)"
    unfolding SelectQuery_render_def selected_all_A flds f2 fmt
    by (simp add: dq_def nl_def tab_def py_strip_def is_space_def)
  have 3: "SelectQuery_render rt obj_repr (?q B_id False) = Inl UnknownOrderColumn"
    unfolding SelectQuery_render_def selected_all_A flds f3 by (simp add: dq_def)
  from 1 2 3 show ?thesis by blast
qed


subsection \<open>The VALUES of an INSERT\<close>

lemma concat_sep_join:
  "xs \<noteq> [] \<Longrightarrow> concat (map (\<lambda>x. f x @ sep) xs) = py_join sep (map f xs) @ sep"
proof (induction xs)
  case Nil
  then show ?case by simp
next
  case (Cons x xs)
  then show ?case by (cases xs) simp_all
qed

lemma butlast2_append: "butlast (butlast (xs @ [a, b])) = xs"
  by (simp add: butlast_append)

lemma MetaModel_columns_table: "c \<in> set (MetaModel_columns t) \<Longrightarrow> table c = Some t"
  by (auto simp: MetaModel_columns_def Column_get_def)

lemma render_cells_eq:
  assumes "set cols \<subseteq> set (MetaModel_columns t)" and "model_of v = t"
  shows "render_cells cols n v (q, ps) =
     Inr (q @ concat (map (\<lambda>c. cell_sql t n v c @ '', '') cols), fold (cell_bind t n v) cols ps)"
  using assms(1)
proof (induction cols arbitrary: q ps)
  case Nil
  then show ?case by simp
next
  case (Cons c cols)
  then have c: "c \<in> set (MetaModel_columns t)" and rest: "set cols \<subseteq> set (MetaModel_columns t)"
    by auto
  from c have found: "list_ex (\<lambda>vc. name vc = name c) (MetaModel_columns (model_of v))"
    using assms(2) by (auto simp: list_ex_iff)
  from c have tbl: "table c = Some t" by (rule MetaModel_columns_table)
  have step: "render_cells (c # cols) n v (q, ps) =
      render_cells cols n v (q @ cell_sql t n v c @ '', '', cell_bind t n v c ps)"
    by (cases "getattr v c") (simp_all add: found tbl cell_sql_def cell_bind_def cell_name_def)
  show ?case
    unfolding step Cons.IH [OF rest] by simp
qed

lemma render_rows_eq:
  assumes "MetaModel_columns t \<noteq> []" and "\<forall>v \<in> set vs. model_of v = t"
  shows "render_rows t (MetaModel_columns t) n vs (q, ps) =
     Inr (q @ concat (map (\<lambda>nv. row_sql t (MetaModel_columns t) nv @ '','') (enumerate n vs)),
          fold (row_bind t (MetaModel_columns t)) (enumerate n vs) ps)"
  using assms(2)
proof (induction vs arbitrary: n q ps)
  case Nil
  then show ?case by simp
next
  case (Cons v vs)
  then have v: "model_of v = t" and rest: "\<forall>v \<in> set vs. model_of v = t" by auto
  have cells: "render_cells (MetaModel_columns t) n v (q @ nl @ tab @ ''('', ps) =
      Inr ((q @ nl @ tab @ ''('') @ py_join '', '' (map (cell_sql t n v) (MetaModel_columns t)) @ '', '',
           fold (cell_bind t n v) (MetaModel_columns t) ps)"
    using render_cells_eq [OF subset_refl v] concat_sep_join [OF assms(1)] by simp
  have cut: "butlast (butlast ((q @ nl @ tab @ ''('') @ py_join '', '' (map (cell_sql t n v) (MetaModel_columns t)) @ '', ''))
       = q @ nl @ tab @ ''('' @ py_join '', '' (map (cell_sql t n v) (MetaModel_columns t))"
    using butlast2_append [of "q @ nl @ tab @ ''('' @ py_join '', '' (map (cell_sql t n v) (MetaModel_columns t))" "CHR '',''" "CHR '' ''"]
    by simp
  show ?case
    using v cut by (simp add: cells Cons.IH [OF rest] row_sql_def row_bind_def)
qed

lemma py_iter_same: "\<forall>x \<in> set xs. ty x = a \<Longrightarrow> py_iter ty xs = Same xs"
  by (cases xs) (auto simp: py_iter_def list_all_iff)

lemma ValuesQuery_render_eq:
  assumes "tables q = [t]" and "attrs t \<noteq> []" and "values_list q \<noteq> []"
    and "\<forall>v \<in> set (values_list q). model_of v = t"
  shows "ValuesQuery_render q =
     Inr (values_sql t (values_list q), values_bind t (values_list q) (parameters q))"
proof -
  let ?cols = "MetaModel_columns t"
  let ?rows = "map (row_sql t ?cols) (enumerate 0 (values_list q))"
  have cols: "?cols \<noteq> []" using assms(2) by (simp add: MetaModel_columns_def)
  have en: "enumerate 0 (values_list q) \<noteq> []" using assms(3) by (cases "values_list q") simp_all
  have rows: "render_rows t ?cols 0 (values_list q) (nl @ ''VALUES'', parameters q) =
      Inr ((nl @ ''VALUES'' @ py_join '','' ?rows) @ '','', values_bind t (values_list q) (parameters q))"
    unfolding render_rows_eq [OF cols assms(4)] concat_sep_join [OF en] values_bind_def
    by simp
  have "ValuesQuery_render q =
      (case render_rows t ?cols 0 (values_list q) (nl @ ''VALUES'', parameters q) of
         Inl e \<Rightarrow> Inl e
       | Inr (text, ps) \<Rightarrow> Inr (butlast text, ps))"
    using cols assms(3)
    by (simp add: ValuesQuery_render_def assms(1) py_iter_same [OF assms(4)] Let_def)
  also have "\<dots> = Inr (nl @ ''VALUES'' @ py_join '','' ?rows, values_bind t (values_list q) (parameters q))"
    unfolding rows by (simp only: sum.case prod.case butlast_snoc)
  finally show ?thesis by (simp add: values_sql_def)
qed

lemma str_columns_bound:
  "set cols \<subseteq> set (MetaModel_columns t) \<Longrightarrow> str_columns cols = Inr (map (column_text t) cols)"
  by (induction cols) (auto simp: Column_str_def MetaModel_columns_table)

lemma py_strip_id: "\<not> is_space a \<Longrightarrow> \<not> is_space b \<Longrightarrow> py_strip (a # s @ [b]) = a # s @ [b]"
  by (simp add: py_strip_def)

lemma InsertQuery_render_eq:
  assumes "tables q = [t]" and "attrs t \<noteq> []" and "values_list q \<noteq> []"
    and "\<forall>v \<in> set (values_list q). model_of v = t"
  shows "InsertQuery_render q =
     Inr (insert_into t @ values_sql t (values_list q)
            @ (if upsert q then do_update t (map (column_text t) (MetaModel_columns t)) else [])
            @ do_nothing_returning t,
          values_bind t (values_list q) (parameters q))"
proof -
  let ?upd = "if upsert q then do_update t (map (column_text t) (MetaModel_columns t)) else []"
  let ?all = "insert_into t @ values_sql t (values_list q) @ ?upd @ do_nothing_returning t"
  have ne: "values_sql t (values_list q) \<noteq> []" by (simp add: values_sql_def nl_def)
  have tbl: "Query_table q = Some t" by (simp add: Query_table_def assms(1))
  obtain s where s: "insert_into t = CHR ''I'' # s" by (simp add: insert_into_def)
  obtain s' where s': "do_nothing_returning t = s' @ [CHR '')'']"
    by (simp add: do_nothing_returning_def)
  let ?mid = "s @ values_sql t (values_list q) @ ?upd @ s'"
  have e: "?all = CHR ''I'' # ?mid @ [CHR '')'']"
    by (simp add: s s')
  have "py_strip (CHR ''I'' # ?mid @ [CHR '')'']) = CHR ''I'' # ?mid @ [CHR '')'']"
    by (rule py_strip_id) (simp_all add: is_space_def)
  then have strip: "py_strip ?all = ?all"
    by (simp only: e)
  have upd: "(if upsert q then
          (case str_columns (MetaModel_columns t) of
             Inl e \<Rightarrow> Inl e
           | Inr ss \<Rightarrow> Inr (do_update t ss))
        else Inr []) = Inr ?upd"
    by (simp add: str_columns_bound [OF subset_refl])
  have "InsertQuery_render q =
      (case (if upsert q then
               (case str_columns (MetaModel_columns t) of
                  Inl e \<Rightarrow> Inl e
                | Inr ss \<Rightarrow> Inr (do_update t ss))
             else Inr [])
       of
         Inl e \<Rightarrow> Inl e
       | Inr upd \<Rightarrow>
           Inr (py_strip (insert_into t @ values_sql t (values_list q) @ upd
                  @ do_nothing_returning t),
                values_bind t (values_list q) (parameters q)))"
    by (simp add: InsertQuery_render_def ValuesQuery_render_eq [OF assms] ne tbl)
  also have "\<dots> = Inr (py_strip ?all, values_bind t (values_list q) (parameters q))"
    by (simp only: upd sum.case)
  finally show ?thesis
    by (simp only: strip)
qed


lemma digit_char: "n < 10 \<Longrightarrow> of_char (''0123456789'' ! n) = (48 + n :: nat)"
proof -
  assume n: "n < 10"
  have codes: "map (of_char :: char \<Rightarrow> nat) ''0123456789'' = map (\<lambda>k. 48 + k) [0..<10]"
    by code_simp
  have "of_char (''0123456789'' ! n) = map (of_char :: char \<Rightarrow> nat) ''0123456789'' ! n"
    using n by (subst nth_map) simp_all
  also have "\<dots> = map (\<lambda>k. 48 + k) [0..<10] ! n"
    by (simp only: codes)
  also have "\<dots> = 48 + n"
    using n by (subst nth_map) (simp_all del: upt_Suc)
  finally show ?thesis .
qed

lemma nat_of_str_str_nat: "nat_of_str (str_nat n) = n"
proof (induction n rule: str_nat.induct)
  case (1 n)
  show ?case
  proof (cases "n < 10")
    case True
    then show ?thesis
      by (simp add: str_nat.simps [of n] nat_of_str_def digit_char)
  next
    case False
    with 1 have ih: "nat_of_str (str_nat (n div 10)) = n div 10" by simp
    have "n mod 10 < 10" by simp
    then have d: "of_char (''0123456789'' ! (n mod 10)) = (48 + n mod 10 :: nat)"
      by (rule digit_char)
    have "nat_of_str (str_nat n) = 10 * nat_of_str (str_nat (n div 10)) + n mod 10"
      using False d by (simp add: str_nat.simps [of n] nat_of_str_def)
    with ih show ?thesis by simp
  qed
qed

lemma str_nat_inj: "str_nat n = str_nat m \<Longrightarrow> n = m"
  by (metis nat_of_str_str_nat)

lemma str_nat_no_underscore: "CHR ''_'' \<notin> set (str_nat n)"
proof (induction n rule: str_nat.induct)
  case (1 n)
  have d: "''0123456789'' ! k \<noteq> CHR ''_''" if "k < 10" for k
  proof
    assume "''0123456789'' ! k = CHR ''_''"
    then have "of_char (''0123456789'' ! k) = (95 :: nat)" by simp
    with digit_char [OF that] that show False by simp
  qed
  show ?case
  proof (cases "n < 10")
    case True
    then have "str_nat n = [''0123456789'' ! n]" by (simp add: str_nat.simps [of n])
    with d [OF True] show ?thesis by simp
  next
    case False
    with 1 have "CHR ''_'' \<notin> set (str_nat (n div 10))" by simp
    moreover have "''0123456789'' ! (n mod 10) \<noteq> CHR ''_''" by (rule d) simp
    ultimately show ?thesis using False by (simp add: str_nat.simps [of n])
  qed
qed

lemma first_occurrence_unique:
  "as @ c # bs = as' @ c # bs' \<Longrightarrow> c \<notin> set as \<Longrightarrow> c \<notin> set as' \<Longrightarrow> as = as' \<and> bs = bs'"
proof (induction as arbitrary: as')
  case Nil
  then show ?case by (cases as') auto
next
  case (Cons a as)
  then show ?case by (cases as') auto
qed

lemma last_occurrence_unique:
  assumes "xs @ c # ys = xs' @ c # ys'" and "c \<notin> set ys" and "c \<notin> set ys'"
  shows "xs = xs' \<and> ys = ys'"
proof -
  from assms(1) have "rev (xs @ c # ys) = rev (xs' @ c # ys')" by simp
  then have "rev ys @ c # rev xs = rev ys' @ c # rev xs'" by simp
  then have "rev ys = rev ys' \<and> rev xs = rev xs'"
    using assms(2,3) by (intro first_occurrence_unique) simp_all
  then show ?thesis by simp
qed

lemma cell_name_inj:
  assumes "cell_name t n c = cell_name t m c'"
  shows "n = m \<and> name c = name c'"
proof -
  from assms have "(table_name t @ ''_'' @ name c) @ CHR ''_'' # str_nat n =
      (table_name t @ ''_'' @ name c') @ CHR ''_'' # str_nat m"
    by (simp add: cell_name_def)
  then have "table_name t @ ''_'' @ name c = table_name t @ ''_'' @ name c' \<and> str_nat n = str_nat m"
    by (rule last_occurrence_unique) (rule str_nat_no_underscore)+
  then show ?thesis by (simp add: str_nat_inj)
qed

lemma cell_bind_skip:
  "k \<noteq> cell_name t n c \<or> (\<exists>raw. getattr v c = PRandExpr raw) \<Longrightarrow> cell_bind t n v c ps k = ps k"
  by (cases "getattr v c") (auto simp: cell_bind_def)

lemma cell_bind_own:
  "\<forall>raw. getattr v c \<noteq> PRandExpr raw \<Longrightarrow> cell_bind t n v c ps (cell_name t n c) = Some (getattr v c)"
  by (cases "getattr v c") (simp_all add: cell_bind_def)

lemma row_bind_Cons:
  "row_bind t (x # cols) (n, v) ps = row_bind t cols (n, v) (cell_bind t n v x ps)"
  by (simp add: row_bind_def)

lemma row_bind_skip:
  "\<forall>c \<in> set cols. k \<noteq> cell_name t n c \<or> (\<exists>raw. getattr v c = PRandExpr raw) \<Longrightarrow>
   row_bind t cols (n, v) ps k = ps k"
proof (induction cols arbitrary: ps)
  case Nil
  then show ?case by (simp add: row_bind_def)
next
  case (Cons c cols)
  then have "cell_bind t n v c ps k = ps k" by (intro cell_bind_skip) simp
  with Cons show ?case by (simp add: row_bind_Cons)
qed

lemma row_bind_own:
  assumes "distinct (map name cols)" and "c \<in> set cols" and "\<forall>raw. getattr v c \<noteq> PRandExpr raw"
  shows "row_bind t cols (n, v) ps (cell_name t n c) = Some (getattr v c)"
  using assms(1,2)
proof (induction cols arbitrary: ps)
  case Nil
  then show ?case by simp
next
  case (Cons c0 cols)
  show ?case
  proof (cases "c \<in> set cols")
    case True
    with Cons show ?thesis by (simp add: row_bind_Cons)
  next
    case False
    with Cons.prems have c0: "c0 = c" by simp
    have "\<forall>c' \<in> set cols. cell_name t n c \<noteq> cell_name t n c' \<or> (\<exists>raw. getattr v c' = PRandExpr raw)"
    proof
      fix c' assume "c' \<in> set cols"
      with Cons.prems(1) c0 have "name c \<noteq> name c'" by auto
      then show "cell_name t n c \<noteq> cell_name t n c' \<or> (\<exists>raw. getattr v c' = PRandExpr raw)"
        using cell_name_inj by blast
    qed
    then have "row_bind t cols (n, v) (cell_bind t n v c ps) (cell_name t n c) =
        cell_bind t n v c ps (cell_name t n c)"
      by (rule row_bind_skip)
    then show ?thesis
      by (simp add: row_bind_Cons c0 cell_bind_own [OF assms(3)])
  qed
qed

lemma values_skip:
  "\<forall>nv \<in> set nvs. \<forall>c \<in> set cols.
      k \<noteq> cell_name t (fst nv) c \<or> (\<exists>raw. getattr (snd nv) c = PRandExpr raw) \<Longrightarrow>
   fold (row_bind t cols) nvs ps k = ps k"
proof (induction nvs arbitrary: ps)
  case Nil
  then show ?case by simp
next
  case (Cons nv nvs)
  obtain n v where nv: "nv = (n, v)" by (cases nv)
  from Cons.prems have "row_bind t cols (n, v) ps k = ps k"
    by (intro row_bind_skip) (simp add: nv)
  with Cons show ?case by (simp add: nv)
qed

lemma values_own:
  assumes "distinct (map name cols)" and "c \<in> set cols" and "\<forall>raw. getattr v c \<noteq> PRandExpr raw"
  shows "distinct (map fst nvs) \<Longrightarrow> (i, v) \<in> set nvs \<Longrightarrow>
    fold (row_bind t cols) nvs ps (cell_name t i c) = Some (getattr v c)"
proof (induction nvs arbitrary: ps)
  case Nil
  then show ?case by simp
next
  case (Cons nv nvs)
  show ?case
  proof (cases "(i, v) \<in> set nvs")
    case True
    with Cons show ?thesis by simp
  next
    case False
    with Cons.prems have nv: "nv = (i, v)" by simp
    have "\<forall>nv' \<in> set nvs. \<forall>c' \<in> set cols.
        cell_name t i c \<noteq> cell_name t (fst nv') c' \<or> (\<exists>raw. getattr (snd nv') c' = PRandExpr raw)"
    proof (intro ballI)
      fix nv' c' assume "nv' \<in> set nvs" "c' \<in> set cols"
      with Cons.prems(1) nv have "i \<noteq> fst nv'" by auto
      then show "cell_name t i c \<noteq> cell_name t (fst nv') c'
          \<or> (\<exists>raw. getattr (snd nv') c' = PRandExpr raw)"
        using cell_name_inj by blast
    qed
    then have "fold (row_bind t cols) nvs (row_bind t cols (i, v) ps) (cell_name t i c) =
        row_bind t cols (i, v) ps (cell_name t i c)"
      by (rule values_skip)
    then show ?thesis by (simp add: nv row_bind_own [OF assms])
  qed
qed

lemma distinct_column_names:
  "distinct (map name (attrs t)) \<Longrightarrow> distinct (map name (MetaModel_columns t))"
proof -
  have "map name (MetaModel_columns t) = map name (attrs t)"
    by (simp add: MetaModel_columns_def Column_get_def)
  then show "distinct (map name (attrs t)) \<Longrightarrow> distinct (map name (MetaModel_columns t))"
    by simp
qed

lemma values_bind_lookup:
  assumes "distinct (map name (attrs t))" and "c \<in> set (MetaModel_columns t)"
    and "i < length vs" and "\<forall>raw. getattr (vs ! i) c \<noteq> PRandExpr raw"
  shows "values_bind t vs ps (cell_name t i c) = Some (getattr (vs ! i) c)"
proof -
  have e: "distinct (map fst (enumerate 0 vs))" by simp
  have m: "(i, vs ! i) \<in> set (enumerate 0 vs)" using assms(3) by (simp add: in_set_enumerate_eq)
  show ?thesis
    unfolding values_bind_def
    by (rule values_own [OF distinct_column_names [OF assms(1)] assms(2,4) e m])
qed

lemma values_bind_rand:
  assumes "distinct (map name (attrs t))" and "c \<in> set (MetaModel_columns t)"
    and "i < length vs" and "getattr (vs ! i) c = PRandExpr raw"
  shows "values_bind t vs ps (cell_name t i c) = ps (cell_name t i c)"
  unfolding values_bind_def
proof (rule values_skip, intro ballI)
  fix nv c'
  assume nv: "nv \<in> set (enumerate 0 vs)" and c': "c' \<in> set (MetaModel_columns t)"
  show "cell_name t i c \<noteq> cell_name t (fst nv) c' \<or> (\<exists>raw. getattr (snd nv) c' = PRandExpr raw)"
  proof (cases "cell_name t i c = cell_name t (fst nv) c'")
    case False
    then show ?thesis by simp
  next
    case True
    then have i: "i = fst nv" and n: "name c = name c'" using cell_name_inj by blast+
    from nv have "snd nv = vs ! fst nv" by (simp add: in_set_enumerate_eq)
    with i have v: "snd nv = vs ! i" by simp
    from distinct_column_names [OF assms(1)] have "inj_on name (set (MetaModel_columns t))"
      by (simp add: distinct_map)
    with n assms(2) c' have "c' = c" by (auto dest: inj_onD)
    with v assms(4) show ?thesis by simp
  qed
qed


text \<open>
  C3 (as amended). For an Insert into one table whose columns have distinct names, of a
  non-empty list of instances of that table, the render succeeds whatever the values
  are, and for every (row, column) pair: a \<open>RandExpr\<close> is written as its raw SQL and
  binds no parameter (the name of the pair keeps what the query's parameters had);
  any other value is bound as it is, without validation, under the name
  \<open><table>_<column>_<rowIndex>\<close>, and its placeholder is written. The text is the INSERT
  clause, the VALUES made of these cells, the upsert clause if asked for, and the closing
  \<open>ON CONFLICT ... DO NOTHING ... RETURNING\<close>.
\<close>

theorem InsertQuery_render_values:
  assumes "tables q = [t]" and "attrs t \<noteq> []" and "distinct (map name (attrs t))"
    and "values_list q \<noteq> []" and "\<forall>v \<in> set (values_list q). model_of v = t"
  shows "InsertQuery_render q =
     Inr (insert_into t @ values_sql t (values_list q)
            @ (if upsert q then do_update t (map (column_text t) (MetaModel_columns t)) else [])
            @ do_nothing_returning t,
          values_bind t (values_list q) (parameters q))
   \<and> (\<forall>i < length (values_list q). \<forall>c \<in> set (MetaModel_columns t).
        (\<forall>raw. getattr (values_list q ! i) c = PRandExpr raw \<longrightarrow>
           cell_sql t i (values_list q ! i) c = raw
           \<and> values_bind t (values_list q) (parameters q) (cell_name t i c) =
               parameters q (cell_name t i c))
        \<and> ((\<forall>raw. getattr (values_list q ! i) c \<noteq> PRandExpr raw) \<longrightarrow>
           cell_sql t i (values_list q ! i) c = ''%('' @ cell_name t i c @ '')s''
           \<and> values_bind t (values_list q) (parameters q) (cell_name t i c) =
               Some (getattr (values_list q ! i) c)))
   \<and> (\<forall>i c. cell_name t i c = table_name t @ ''_'' @ name c @ ''_'' @ str_nat i)"
proof -
  let ?vs = "values_list q"
  have rand: "cell_sql t i (?vs ! i) c = raw
      \<and> values_bind t ?vs (parameters q) (cell_name t i c) = parameters q (cell_name t i c)"
    if "i < length ?vs" "c \<in> set (MetaModel_columns t)" "getattr (?vs ! i) c = PRandExpr raw"
    for i c raw
    using that values_bind_rand [OF assms(3) that(2) that(1) that(3)]
    by (simp add: cell_sql_def)
  have other: "cell_sql t i (?vs ! i) c = ''%('' @ cell_name t i c @ '')s''
      \<and> values_bind t ?vs (parameters q) (cell_name t i c) = Some (getattr (?vs ! i) c)"
    if "i < length ?vs" "c \<in> set (MetaModel_columns t)" "\<forall>raw. getattr (?vs ! i) c \<noteq> PRandExpr raw"
    for i c
  proof -
    have "cell_sql t i (?vs ! i) c = ''%('' @ cell_name t i c @ '')s''"
      using that(3) by (cases "getattr (?vs ! i) c") (simp_all add: cell_sql_def)
    with values_bind_lookup [OF assms(3) that(2) that(1) that(3)] show ?thesis by simp
  qed
  have name: "cell_name t i c = table_name t @ ''_'' @ name c @ ''_'' @ str_nat i" for i c
    by (simp add: cell_name_def)
  from InsertQuery_render_eq [OF assms(1,2,4,5)] rand other name show ?thesis
    by blast
qed

lemma str_nat_0: "str_nat 0 = ''0''"
  by (simp add: str_nat.simps)

lemma columns_B: "MetaModel_columns table_B = [B_a_id, B_id]"
  by (simp add: MetaModel_columns_def table_B_def B_a_id_def B_id_def)

lemma names_B: "name B_a_id = ''a_id''" "name B_id = ''id''" "table_name table_B = ''b''"
  "attrs table_B \<noteq> []" "distinct (map name (attrs table_B))"
  by (simp_all add: B_a_id_def B_id_def Column_get_def a_id_decl_def id_decl_def table_B_def)

theorem InsertQuery_render_values_witness:
  "InsertQuery_render
       (insert_query_on [table_B]
          [\<lparr> model_of = table_B, stored = [''a_id'' \<mapsto> PInt 5, ''id'' \<mapsto> PRandExpr ''DEFAULT''] \<rparr>]) =
     Inr (insert_into table_B @ nl @ ''VALUES'' @ nl @ tab @ ''(%(b_a_id_0)s, DEFAULT)''
            @ do_nothing_returning table_B,
          [''b_a_id_0'' \<mapsto> PInt 5])"
proof -
  let ?row = "\<lparr> model_of = table_B, stored = [''a_id'' \<mapsto> PInt 5, ''id'' \<mapsto> PRandExpr ''DEFAULT''] \<rparr>"
  let ?q = "insert_query_on [table_B] [?row]"
  have h: "tables ?q = [table_B]" "values_list ?q \<noteq> []"
    "\<forall>v \<in> set (values_list ?q). model_of v = table_B"
    by (simp_all add: insert_query_on_def)
  have g: "getattr ?row B_a_id = PInt 5" "getattr ?row B_id = PRandExpr ''DEFAULT''"
    by (simp_all add: getattr_def names_B)
  have v: "values_sql table_B (values_list ?q) = nl @ ''VALUES'' @ nl @ tab @ ''(%(b_a_id_0)s, DEFAULT)''"
    by (simp add: values_sql_def insert_query_on_def columns_B row_sql_def cell_sql_def g
        cell_name_def names_B str_nat_0)
  have b: "values_bind table_B (values_list ?q) (parameters ?q) = [''b_a_id_0'' \<mapsto> PInt 5]"
    by (simp add: values_bind_def insert_query_on_def columns_B row_bind_def cell_bind_def g
        cell_name_def names_B str_nat_0)
  have u: "\<not> upsert ?q" by (simp add: insert_query_on_def)
  from InsertQuery_render_values [OF h(1) names_B(4) names_B(5) h(2) h(3)] show ?thesis
    unfolding v b using u by simp
qed

text \<open>
  The claim as written fails: the \<open>Integer\<close> column \<open>B.a_id\<close> refuses \<open>2**31\<close> when it
  validates it, and the Insert of an instance holding \<open>2**31\<close> renders and binds it.
\<close>

theorem insert_binds_unchecked_counterexample:
  "MetaModel_columns table_B = [B_a_id, B_id]
   \<and> validate sample_runtime B_a_id (PInt (2 ^ 31)) = Inl OutOfRange
   \<and> InsertQuery_render
       (insert_query_on [table_B]
          [\<lparr> model_of = table_B, stored = [''a_id'' \<mapsto> PInt (2 ^ 31), ''id'' \<mapsto> PInt 1] \<rparr>]) =
     Inr (insert_into table_B @ nl @ ''VALUES'' @ nl @ tab @ ''(%(b_a_id_0)s, %(b_id_0)s)''
            @ do_nothing_returning table_B,
          [''b_a_id_0'' \<mapsto> PInt (2 ^ 31), ''b_id_0'' \<mapsto> PInt 1])"
proof -
  let ?row = "\<lparr> model_of = table_B, stored = [''a_id'' \<mapsto> PInt 2147483648, ''id'' \<mapsto> PInt 1] \<rparr>"
  let ?q = "insert_query_on [table_B] [?row]"
  have h: "tables ?q = [table_B]" "values_list ?q \<noteq> []"
    "\<forall>v \<in> set (values_list ?q). model_of v = table_B"
    by (simp_all add: insert_query_on_def)
  have g: "getattr ?row B_a_id = PInt 2147483648" "getattr ?row B_id = PInt 1"
    by (simp_all add: getattr_def names_B)
  have v: "values_sql table_B (values_list ?q) =
      nl @ ''VALUES'' @ nl @ tab @ ''(%(b_a_id_0)s, %(b_id_0)s)''"
    by (simp add: values_sql_def insert_query_on_def columns_B row_sql_def cell_sql_def g
        cell_name_def names_B str_nat_0)
  have b: "values_bind table_B (values_list ?q) (parameters ?q) =
      [''b_a_id_0'' \<mapsto> PInt 2147483648, ''b_id_0'' \<mapsto> PInt 1]"
    by (simp add: values_bind_def insert_query_on_def columns_B row_bind_def cell_bind_def g
        cell_name_def names_B str_nat_0)
  have u: "\<not> upsert ?q" by (simp add: insert_query_on_def)
  have val: "validate sample_runtime B_a_id (PInt 2147483648) = Inl OutOfRange"
    by (simp add: validate_def Numeric_validate_def Column_validate_def Column_convert_def
        py_le_def B_a_id_def Column_get_def a_id_decl_def)
  from InsertQuery_render_eq [OF h(1) names_B(4) h(2) h(3)] have
    "InsertQuery_render ?q =
       Inr (insert_into table_B @ nl @ ''VALUES'' @ nl @ tab @ ''(%(b_a_id_0)s, %(b_id_0)s)''
            @ do_nothing_returning table_B,
          [''b_a_id_0'' \<mapsto> PInt 2147483648, ''b_id_0'' \<mapsto> PInt 1])"
    unfolding v b using u by simp
  with columns_B val show ?thesis by simp
qed


end
